theory Spec2Isabelle
  imports Main "HOL-Library.Multiset"
begin

section \<open>The WindowPoSt partition scheduler (package window)\<close>

text \<open>
  A shallow embedding of the task type \<open>WdPostTask\<close>: the chain-head watcher
  \<open>processHeadChange\<close>, the bidding admitter \<open>CanAccept\<close> and the prover entry point
  \<open>Do\<close>. Epochs (\<open>abi.ChainEpoch\<close>, an int64) are \<open>int\<close>; actor ids, indices and task
  ids are \<open>nat\<close>; bids (Go \<open>int\<close>) are \<open>int\<close>. No claim below depends on 64-bit
  wrap-around: the only arithmetic on bids is \<open>len(tasks) + 10 - idx - r\<close>, on lengths
  and counts of rows held in memory.
\<close>

subsection \<open>Errors\<close>

datatype error =
    ErrNoRows
  | ErrScan
  | ErrDatabase
  | ErrUniqueConstraint
  | ErrChain
  | ErrAddress
  | ErrProver
  | ErrMarshal
  | ErrParams
  | ErrNoTaskFunc
  | Errorf string error

subsection \<open>Addresses and tipsets\<close>

datatype address = IDAddress nat | KeyAddress string

text \<open>
  Modelled from the spec: section 4.3.2 (convert \<open>sp_id\<close> to a miner address) and
  section 4.1. The package go-address is not under src/: \<open>IDFromAddress\<close> fails on an
  address that is not an ID address, \<open>NewIDAddress\<close> refuses ids above the largest
  int64.
\<close>

definition IDFromAddress :: "address \<Rightarrow> error + nat" where
  "IDFromAddress a = (case a of IDAddress n \<Rightarrow> Inr n | KeyAddress s \<Rightarrow> Inl ErrAddress)"

definition NewIDAddress :: "nat \<Rightarrow> error + address" where
  "NewIDAddress n = (if int n > 9223372036854775807 then Inl ErrAddress else Inr (IDAddress n))"

record TipSet =
  Height :: int
  Key :: nat

subsection \<open>Deadlines\<close>

text \<open>The protocol constants of package \<open>miner\<close>, which src/ only names: a parameter.\<close>

record policy =
  miner_WPoStPeriodDeadlines :: nat
  miner_WPoStProvingPeriod :: int
  miner_WPoStChallengeWindow :: int
  miner_WPoStChallengeLookback :: int
  miner_FaultDeclarationCutoff :: int

record dline_info =
  CurrentEpoch :: int
  PeriodStart :: int
  Index :: nat
  Open :: int
  Close :: int
  Challenge :: int
  FaultCutoff :: int
  WPoStPeriodDeadlines :: nat
  WPoStProvingPeriod :: int
  WPoStChallengeWindow :: int
  WPoStChallengeLookback :: int
  FaultDeclarationCutoff :: int

text \<open>
  Modelled from the spec: section 3, Deadline (the deadline object derived from the
  proving-period start, the deadline index, the current epoch and the protocol
  constants, with its predicates \<open>PeriodStarted\<close> and \<open>PeriodElapsed\<close>). The type
  \<open>dline.Info\<close> and its constructor belong to go-state-types, which is not under src/.
\<close>

definition NewInfo :: "int \<Rightarrow> nat \<Rightarrow> int \<Rightarrow> nat \<Rightarrow> int \<Rightarrow> int \<Rightarrow> int \<Rightarrow> int \<Rightarrow> dline_info" where
  "NewInfo periodStart deadlineIdx currEpoch periodDeadlines provingPeriod challengeWindow
      challengeLookback faultCutoff =
    (if deadlineIdx < periodDeadlines then
       (let deadlineOpen = periodStart + int deadlineIdx * challengeWindow in
        \<lparr> CurrentEpoch = currEpoch, PeriodStart = periodStart, Index = deadlineIdx,
          Open = deadlineOpen, Close = deadlineOpen + challengeWindow,
          Challenge = deadlineOpen - challengeLookback,
          FaultCutoff = deadlineOpen - faultCutoff,
          WPoStPeriodDeadlines = periodDeadlines, WPoStProvingPeriod = provingPeriod,
          WPoStChallengeWindow = challengeWindow,
          WPoStChallengeLookback = challengeLookback,
          FaultDeclarationCutoff = faultCutoff \<rparr>)
     else
       (let afterLastDeadline = periodStart + provingPeriod in
        \<lparr> CurrentEpoch = currEpoch, PeriodStart = periodStart, Index = deadlineIdx,
          Open = afterLastDeadline, Close = afterLastDeadline,
          Challenge = afterLastDeadline, FaultCutoff = 0,
          WPoStPeriodDeadlines = periodDeadlines, WPoStProvingPeriod = provingPeriod,
          WPoStChallengeWindow = challengeWindow,
          WPoStChallengeLookback = challengeLookback,
          FaultDeclarationCutoff = faultCutoff \<rparr>))"

definition PeriodStarted :: "dline_info \<Rightarrow> bool" where
  "PeriodStarted d = (CurrentEpoch d \<ge> PeriodStart d)"

definition PeriodElapsed :: "dline_info \<Rightarrow> bool" where
  "PeriodElapsed d = (CurrentEpoch d \<ge> PeriodStart d + WPoStProvingPeriod d)"

text \<open>\<open>NewDeadlineInfo\<close>, the last function of the source file.\<close>

definition NewDeadlineInfo :: "policy \<Rightarrow> int \<Rightarrow> nat \<Rightarrow> int \<Rightarrow> dline_info" where
  "NewDeadlineInfo pol periodStart deadlineIdx currEpoch =
     NewInfo periodStart deadlineIdx currEpoch (miner_WPoStPeriodDeadlines pol)
       (miner_WPoStProvingPeriod pol) (miner_WPoStChallengeWindow pol)
       (miner_WPoStChallengeLookback pol) (miner_FaultDeclarationCutoff pol)"

subsection \<open>The store\<close>

record wdTaskIdentity =
  SpID :: nat
  ProvingPeriodStart :: int
  DeadlineIndex :: nat
  PartitionIndex :: nat

record wdpost_proof =
  pr_sp_id :: nat
  pr_proving_period_start :: int
  pr_deadline :: nat
  pr_partition :: nat
  pr_submit_at_epoch :: int
  pr_submit_by_epoch :: int
  pr_proof_params :: "nat list"

datatype PoSt = PoSt "nat list"

text \<open>
  The four tables of section 6, rows in table order, and the calls \<open>Do\<close> has made to
  \<open>DoPartition\<close> (challenge tipset, miner address, deadline, partition index).
  \<open>next_task_id\<close> is the id the task factory hands out next.
\<close>

record world =
  wdpost_partition_tasks :: "(nat \<times> wdTaskIdentity) list"
  wdpost_proofs :: "wdpost_proof list"
  harmony_test :: "(nat \<times> string) list"
  harmony_task_history :: "(nat \<times> bool) list"
  next_task_id :: nat
  DoPartition_calls :: "(TipSet \<times> address \<times> dline_info \<times> nat) list"

subsection \<open>The collaborators of a WdPostTask\<close>

text \<open>
  The SQL statements of the source. \<open>CountHarmonyTest k\<close> is the \<open>k\<close>-th execution
  (from 0) of the count on \<open>harmony_test\<close> within one \<open>Do\<close>; \<open>CountHistory id\<close> the
  count of failed attempts of task \<open>id\<close>.
\<close>

datatype db_stmt =
    SelectIdentity
  | CountHarmonyTest nat
  | UpdateHarmonyTest
  | SelectTasks
  | CountHistory nat

text \<open>What the database answers to the INSERT into \<open>wdpost_proofs\<close>.\<close>

datatype insert_outcome = InsertFails error | InsertSuppressed | InsertStored

record test_result_doc =
  doc_sp_id :: nat
  doc_proving_period_start :: int
  doc_deadline :: nat
  doc_partition :: nat
  doc_submit_at_epoch :: int
  doc_submit_by_epoch :: int
  doc_post_out :: PoSt
  doc_proof_params :: "nat list"

record wdTaskDef = wdTaskIdentity +
  TaskID :: nat
  dlInfo :: dline_info

text \<open>
  The fields of the struct \<open>WdPostTask\<close> that the three entry points use, as the
  functions they stand for: the chain API (\<open>api\<close>), \<open>paramsReady\<close>, whether the task
  factory promise \<open>windowPoStTF\<close> yields a function, and the database handle \<open>db\<close>
  (which statements fail, and the answer to the INSERT of a proof). \<open>DoPartition\<close>
  (another file of the package), the two marshallers and \<open>sort.Slice\<close> are parameters
  as well.
\<close>

record WdPostTask =
  paramsReady :: "error + bool"
  ChainHead :: "error + TipSet"
  ChainGetTipSetAfterHeight :: "int \<Rightarrow> nat \<Rightarrow> error + TipSet"
  StateMinerProvingDeadline :: "address \<Rightarrow> nat \<Rightarrow> error + dline_info"
  StateMinerPartitions :: "address \<Rightarrow> nat \<Rightarrow> nat \<Rightarrow> error + nat list list"
  windowPoStTF :: bool
  db_fault :: "db_stmt \<Rightarrow> error option"
  db_insert_proof :: "wdpost_proof \<Rightarrow> insert_outcome"
  DoPartition :: "TipSet \<Rightarrow> address \<Rightarrow> dline_info \<Rightarrow> nat \<Rightarrow> error + PoSt"
  MarshalCBOR :: "PoSt \<Rightarrow> error + nat list"
  MarshalIndent :: "test_result_doc \<Rightarrow> error + string"
  sort_Slice :: "(wdTaskDef \<Rightarrow> wdTaskDef \<Rightarrow> bool) \<Rightarrow> wdTaskDef list \<Rightarrow> wdTaskDef list"

subsection \<open>CanAccept\<close>

text \<open>
  The batched SELECT: the rows of \<open>wdpost_partition_tasks\<close> whose \<open>task_id\<close> is among
  the candidates, in table order; candidates with no row are absent.
\<close>

definition Select_tasks :: "WdPostTask \<Rightarrow> world \<Rightarrow> nat list \<Rightarrow> error + (nat \<times> wdTaskIdentity) list" where
  "Select_tasks t w ids =
     (case db_fault t SelectTasks of
        Some err \<Rightarrow> Inl err
      | None \<Rightarrow> Inr (filter (\<lambda>r. fst r \<in> set ids) (wdpost_partition_tasks w)))"

text \<open>The pass of \<open>lo.Filter\<close> stores the deadline of every task in its \<open>dlInfo\<close>.\<close>

definition with_dlInfo :: "policy \<Rightarrow> TipSet \<Rightarrow> nat \<times> wdTaskIdentity \<Rightarrow> wdTaskDef" where
  "with_dlInfo pol ts r =
     \<lparr> SpID = SpID (snd r), ProvingPeriodStart = ProvingPeriodStart (snd r),
       DeadlineIndex = DeadlineIndex (snd r), PartitionIndex = PartitionIndex (snd r),
       TaskID = fst r,
       dlInfo = NewDeadlineInfo pol (ProvingPeriodStart (snd r)) (DeadlineIndex (snd r)) (Height ts) \<rparr>"

definition less_Open :: "wdTaskDef \<Rightarrow> wdTaskDef \<Rightarrow> bool" where
  "less_Open a b = (Open (dlInfo a) < Open (dlInfo b))"

text \<open>
  The count of failed attempts in \<open>harmony_task_history\<close>; when the query fails the
  error is logged and \<open>r\<close> keeps its zero value.
\<close>

definition failure_count :: "world \<Rightarrow> nat \<Rightarrow> int" where
  "failure_count w taskID =
     int (length (filter (\<lambda>h. fst h = taskID \<and> snd h = False) (harmony_task_history w)))"

definition history_penalty :: "WdPostTask \<Rightarrow> world \<Rightarrow> nat \<Rightarrow> int" where
  "history_penalty t w taskID =
     (case db_fault t (CountHistory taskID) of
        Some err \<Rightarrow> 0
      | None \<Rightarrow> failure_count w taskID)"

definition bid_of :: "WdPostTask \<Rightarrow> world \<Rightarrow> wdTaskDef list \<Rightarrow> nat \<times> wdTaskDef \<Rightarrow> nat \<times> int" where
  "bid_of t w tasks p =
     (TaskID (snd p), int (length tasks) + 10 - int (fst p) - history_penalty t w (TaskID (snd p)))"

definition CanAccept :: "policy \<Rightarrow> WdPostTask \<Rightarrow> world \<Rightarrow> nat list \<Rightarrow> error + (nat \<times> int) list" where
  "CanAccept pol t w ids =
     (case paramsReady t of
        Inl err \<Rightarrow> Inl (Errorf ''failed to setup params'' err)
      | Inr rdy \<Rightarrow>
          if \<not> rdy then Inr []
          else
            (case ChainHead t of
               Inl err \<Rightarrow> Inl err
             | Inr ts \<Rightarrow>
                 (case Select_tasks t w ids of
                    Inl err \<Rightarrow> Inl err
                  | Inr rows \<Rightarrow>
                      (let tasks = map (with_dlInfo pol ts) rows;
                           f = filter (\<lambda>d. PeriodElapsed (dlInfo d)) tasks
                       in if length f > 0 then Inr (map (\<lambda>d. (TaskID d, 1000)) f)
                          else
                            (let sorted_tasks = sort_Slice t less_Open tasks
                             in Inr (map (bid_of t w sorted_tasks) (enumerate 0 sorted_tasks)))))))"

subsection \<open>Do\<close>

text \<open>
  The first query of \<open>Do\<close>: the identity row of the task. The four columns are scanned
  into \<open>uint64\<close> variables, so a negative \<open>proving_period_start\<close> fails the scan.
\<close>

definition QueryRow_identity :: "WdPostTask \<Rightarrow> world \<Rightarrow> nat \<Rightarrow> error + wdTaskIdentity" where
  "QueryRow_identity t w taskID =
     (case db_fault t SelectIdentity of
        Some err \<Rightarrow> Inl err
      | None \<Rightarrow>
          (case find (\<lambda>r. fst r = taskID) (wdpost_partition_tasks w) of
             None \<Rightarrow> Inl ErrNoRows
           | Some r \<Rightarrow> if ProvingPeriodStart (snd r) < 0 then Inl ErrScan else Inr (snd r)))"

definition count_harmony_test :: "world \<Rightarrow> nat \<Rightarrow> int" where
  "count_harmony_test w taskID = int (length (filter (\<lambda>r. fst r = taskID) (harmony_test w)))"

text \<open>
  The closure \<open>isTestTask\<close> over the local \<open>testTask *int\<close>. The locals are the pair of
  \<open>testTask\<close> (\<open>None\<close> for nil) and the number of count queries this \<open>Do\<close> has issued.
  A failed query leaves the freshly allocated \<open>*testTask\<close> at zero.
\<close>

definition isTestTask :: "WdPostTask \<Rightarrow> world \<Rightarrow> nat \<Rightarrow> int option \<times> nat \<Rightarrow> bool \<times> (int option \<times> nat)" where
  "isTestTask t w taskID l =
     (case fst l of
        Some c \<Rightarrow> (c > 0, l)
      | None \<Rightarrow>
          (case db_fault t (CountHarmonyTest (snd l)) of
             Some err \<Rightarrow> (False, (Some 0, Suc (snd l)))
           | None \<Rightarrow>
               (let c = count_harmony_test w taskID in (c > 0, (Some c, Suc (snd l))))))"

text \<open>\<open>deadline.PeriodElapsed() && !isTestTask()\<close>: the right operand runs only when the left holds.\<close>

definition stale_reap :: "WdPostTask \<Rightarrow> world \<Rightarrow> nat \<Rightarrow> dline_info \<Rightarrow> bool \<times> (int option \<times> nat)" where
  "stale_reap t w taskID deadline =
     (if PeriodElapsed deadline
      then (let r = isTestTask t w taskID (None, 0) in (\<not> fst r, snd r))
      else (False, (None, 0)))"

text \<open>The adjustment of a test task whose challenge epoch lies after the head.\<close>

definition adjust_deadline ::
  "policy \<Rightarrow> WdPostTask \<Rightarrow> world \<Rightarrow> nat \<Rightarrow> wdTaskIdentity \<Rightarrow> TipSet \<Rightarrow> dline_info \<Rightarrow> int option \<times> nat
     \<Rightarrow> dline_info \<times> (int option \<times> nat)" where
  "adjust_deadline pol t w taskID ident head deadline l =
     (if Challenge deadline > Height head
      then (let r = isTestTask t w taskID l in
            if fst r
            then (NewDeadlineInfo pol (ProvingPeriodStart ident - WPoStProvingPeriod deadline)
                    (DeadlineIndex ident) (Height head - WPoStProvingPeriod deadline), snd r)
            else (deadline, snd r))
      else (deadline, l))"

definition Exec_update_harmony_test :: "WdPostTask \<Rightarrow> world \<Rightarrow> string \<Rightarrow> nat \<Rightarrow> error option \<times> world" where
  "Exec_update_harmony_test t w data taskID =
     (case db_fault t UpdateHarmonyTest of
        Some err \<Rightarrow> (Some err, w)
      | None \<Rightarrow>
          (None, w\<lparr>harmony_test :=
                     map (\<lambda>r. if fst r = taskID then (fst r, data) else r) (harmony_test w)\<rparr>))"

definition Exec_insert_proof :: "WdPostTask \<Rightarrow> world \<Rightarrow> wdpost_proof \<Rightarrow> (nat \<times> error option) \<times> world" where
  "Exec_insert_proof t w row =
     (case db_insert_proof t row of
        InsertFails err \<Rightarrow> ((0, Some err), w)
      | InsertSuppressed \<Rightarrow> ((0, None), w)
      | InsertStored \<Rightarrow> ((1, None), w\<lparr>wdpost_proofs := wdpost_proofs w @ [row]\<rparr>))"

text \<open>The document of the test path and the seven values of the INSERT.\<close>

definition test_result :: "wdTaskIdentity \<Rightarrow> dline_info \<Rightarrow> PoSt \<Rightarrow> nat list \<Rightarrow> test_result_doc" where
  "test_result ident deadline postOut msgbuf =
     \<lparr> doc_sp_id = SpID ident,
       doc_proving_period_start = ProvingPeriodStart ident,
       doc_deadline = Index deadline,
       doc_partition = PartitionIndex ident,
       doc_submit_at_epoch = Open deadline,
       doc_submit_by_epoch = Close deadline,
       doc_post_out = postOut,
       doc_proof_params = msgbuf \<rparr>"

definition proof_record :: "wdTaskIdentity \<Rightarrow> dline_info \<Rightarrow> nat list \<Rightarrow> wdpost_proof" where
  "proof_record ident deadline msgbuf =
     \<lparr> pr_sp_id = SpID ident,
       pr_proving_period_start = ProvingPeriodStart ident,
       pr_deadline = Index deadline,
       pr_partition = PartitionIndex ident,
       pr_submit_at_epoch = Open deadline,
       pr_submit_by_epoch = Close deadline,
       pr_proof_params = msgbuf \<rparr>"

text \<open>From the marshalling of the PoSt to the end of \<open>Do\<close>.\<close>

definition Do_persist ::
  "WdPostTask \<Rightarrow> world \<Rightarrow> nat \<Rightarrow> wdTaskIdentity \<Rightarrow> dline_info \<Rightarrow> PoSt \<Rightarrow> int option \<times> nat
     \<Rightarrow> (bool \<times> error option) \<times> world" where
  "Do_persist t w taskID ident deadline postOut l =
     (case MarshalCBOR t postOut of
        Inl err \<Rightarrow> ((False, Some (Errorf ''marshaling PoSt'' err)), w)
      | Inr msgbuf \<Rightarrow>
          if fst (isTestTask t w taskID l) then
            (case MarshalIndent t (test_result ident deadline postOut msgbuf) of
               Inl err \<Rightarrow> ((False, Some (Errorf ''marshaling message'' err)), w)
             | Inr data \<Rightarrow>
                 (case Exec_update_harmony_test t w data taskID of
                    (Some err, w') \<Rightarrow> ((False, Some (Errorf ''updating harmony_test'' err)), w')
                  | (None, w') \<Rightarrow> ((True, None), w')))
          else
            (case Exec_insert_proof t w (proof_record ident deadline msgbuf) of
               ((n, err), w') \<Rightarrow>
                 if err \<noteq> None then ((False, err), w')
                 else if n \<noteq> 1 then ((False, err), w')
                 else ((True, None), w')))"

text \<open>From \<open>address.NewIDAddress\<close> to the call of \<open>DoPartition\<close>.\<close>

definition Do_prove ::
  "WdPostTask \<Rightarrow> world \<Rightarrow> nat \<Rightarrow> wdTaskIdentity \<Rightarrow> TipSet \<Rightarrow> dline_info \<Rightarrow> int option \<times> nat
     \<Rightarrow> (bool \<times> error option) \<times> world" where
  "Do_prove t w taskID ident head deadline l =
     (case NewIDAddress (SpID ident) of
        Inl err \<Rightarrow> ((False, Some err), w)
      | Inr maddr \<Rightarrow>
          (case ChainGetTipSetAfterHeight t (Challenge deadline) (Key head) of
             Inl err \<Rightarrow> ((False, Some err), w)
           | Inr ts \<Rightarrow>
               (let w1 = w\<lparr>DoPartition_calls :=
                             DoPartition_calls w @ [(ts, maddr, deadline, PartitionIndex ident)]\<rparr>
                in case DoPartition t ts maddr deadline (PartitionIndex ident) of
                     Inl err \<Rightarrow> ((False, Some err), w1)
                   | Inr postOut \<Rightarrow> Do_persist t w1 taskID ident deadline postOut l)))"

definition Do :: "policy \<Rightarrow> WdPostTask \<Rightarrow> world \<Rightarrow> nat \<Rightarrow> (bool \<times> error option) \<times> world" where
  "Do pol t w taskID =
     (case QueryRow_identity t w taskID of
        Inl err \<Rightarrow> ((False, Some err), w)
      | Inr ident \<Rightarrow>
          (case ChainHead t of
             Inl err \<Rightarrow> ((False, Some err), w)
           | Inr head \<Rightarrow>
               (let deadline = NewDeadlineInfo pol (ProvingPeriodStart ident) (DeadlineIndex ident)
                                 (Height head);
                    s = stale_reap t w taskID deadline
                in if fst s then ((True, None), w)
                   else
                     (let a = adjust_deadline pol t w taskID ident head deadline (snd s)
                      in Do_prove t w taskID ident head (fst a) (snd a)))))"

subsection \<open>The chain-head watcher\<close>

text \<open>
  Modelled from the spec: section 3 and section 6 (the tuple of \<open>sp_id\<close>,
  \<open>proving_period_start\<close>, \<open>deadline_index\<close>, \<open>partition_index\<close> is unique in
  \<open>wdpost_partition_tasks\<close>). The schema of the table is not under src/: the INSERT of
  an identity that a row already has fails on the constraint and stores nothing.
\<close>

definition tx_Exec_insert_task :: "world \<Rightarrow> nat \<Rightarrow> wdTaskIdentity \<Rightarrow> error option \<times> world" where
  "tx_Exec_insert_task tx taskId taskIdent =
     (if taskIdent \<in> set (map snd (wdpost_partition_tasks tx))
      then (Some ErrUniqueConstraint, tx)
      else (None, tx\<lparr>wdpost_partition_tasks :=
                       wdpost_partition_tasks tx @ [(taskId, taskIdent)]\<rparr>))"

definition addTaskToDB :: "nat \<Rightarrow> wdTaskIdentity \<Rightarrow> world \<Rightarrow> (bool \<times> error option) \<times> world" where
  "addTaskToDB taskId taskIdent tx =
     (case tx_Exec_insert_task tx taskId taskIdent of
        (Some err, tx') \<Rightarrow> ((False, Some (Errorf ''insert partition task'' err)), tx')
      | (None, tx') \<Rightarrow> ((True, None), tx'))"

text \<open>
  Modelled from the spec: section 4.1, proposal protocol (the task factory of the
  durable runtime, \<open>harmonytask.AddTaskFunc\<close>, is not under src/). The factory assigns
  a task id and runs the callback inside a transaction; the verdict of the callback
  commits the transaction or discards it, and a discarded proposal leaves the store
  as it was. The factory returns nothing to its caller.
\<close>

definition AddTask :: "(nat \<Rightarrow> world \<Rightarrow> (bool \<times> error option) \<times> world) \<Rightarrow> world \<Rightarrow> world" where
  "AddTask extra w =
     (let tID = next_task_id w in
      case extra tID w of
        ((commit, err), tx) \<Rightarrow> if commit then tx\<lparr>next_task_id := Suc tID\<rparr> else w)"

text \<open>The loop \<open>for pidx := range partitions\<close>, over the indices it visits.\<close>

fun propose_partitions :: "WdPostTask \<Rightarrow> nat \<Rightarrow> dline_info \<Rightarrow> nat list \<Rightarrow> world \<Rightarrow> error option \<times> world" where
  "propose_partitions t aid di [] w = (None, w)"
| "propose_partitions t aid di (pidx # rest) w =
     (let tid = \<lparr> SpID = aid, ProvingPeriodStart = PeriodStart di, DeadlineIndex = Index di,
                  PartitionIndex = pidx \<rparr>
      in if \<not> windowPoStTF t then (Some ErrNoTaskFunc, w)
         else propose_partitions t aid di rest (AddTask (\<lambda>id tx. addTaskToDB id tid tx) w))"

text \<open>
  \<open>processHeadChange\<close>. The argument \<open>actors\<close> lists the keys of the map \<open>t.actors\<close> in
  the order in which this invocation's \<open>range\<close> visits them: Go leaves the iteration
  order of a map unspecified, and it may differ from one loop to the next. The
  reverted tipset is not used.
\<close>

fun processHeadChange :: "WdPostTask \<Rightarrow> TipSet \<Rightarrow> address list \<Rightarrow> world \<Rightarrow> error option \<times> world" where
  "processHeadChange t applied [] w = (None, w)"
| "processHeadChange t applied (act # actors) w =
     (case IDFromAddress act of
        Inl err \<Rightarrow> (Some (Errorf ''getting miner ID'' err), w)
      | Inr aid \<Rightarrow>
          (case StateMinerProvingDeadline t act (Key applied) of
             Inl err \<Rightarrow> (Some err, w)
           | Inr di \<Rightarrow>
               if \<not> PeriodStarted di then (None, w)
               else
                 (case StateMinerPartitions t act (Index di) (Key applied) of
                    Inl err \<Rightarrow> (Some (Errorf ''getting partitions'' err), w)
                  | Inr partitions \<Rightarrow>
                      (case propose_partitions t aid di [0..<length partitions] w of
                         (Some err, w') \<Rightarrow> (Some err, w')
                       | (None, w') \<Rightarrow> processHeadChange t applied actors w'))))"

subsection \<open>Notions used by the properties\<close>

text \<open>The set of task identities in the store, and the store after one watcher invocation.\<close>

definition task_identities :: "world \<Rightarrow> wdTaskIdentity set" where
  "task_identities w = set (map snd (wdpost_partition_tasks w))"

definition watch :: "WdPostTask \<Rightarrow> TipSet \<Rightarrow> address list \<Rightarrow> world \<Rightarrow> world" where
  "watch t applied actors w = snd (processHeadChange t applied actors w)"

text \<open>One proposal, as the body of the partition loop makes it.\<close>

definition propose :: "wdTaskIdentity \<Rightarrow> world \<Rightarrow> world" where
  "propose tid w = AddTask (\<lambda>id tx. addTaskToDB id tid tx) w"

text \<open>
  A miner that does not end the loop of \<open>processHeadChange\<close> early: its address is an ID
  address, both chain queries succeed and its period has started.
\<close>

definition miner_ready :: "WdPostTask \<Rightarrow> TipSet \<Rightarrow> address \<Rightarrow> bool" where
  "miner_ready t applied act =
     (case IDFromAddress act of
        Inl err \<Rightarrow> False
      | Inr aid \<Rightarrow>
          (case StateMinerProvingDeadline t act (Key applied) of
             Inl err \<Rightarrow> False
           | Inr di \<Rightarrow>
               PeriodStarted di \<and>
               (case StateMinerPartitions t act (Index di) (Key applied) of
                  Inl err \<Rightarrow> False
                | Inr partitions \<Rightarrow> True)))"

text \<open>
  The identities \<open>(M.ID, d.PeriodStart, d.Index, p)\<close> of the partitions of a miner at
  the applied tipset.
\<close>

definition miner_identities :: "WdPostTask \<Rightarrow> TipSet \<Rightarrow> address \<Rightarrow> wdTaskIdentity list" where
  "miner_identities t applied act =
     (case IDFromAddress act of
        Inl err \<Rightarrow> []
      | Inr aid \<Rightarrow>
          (case StateMinerProvingDeadline t act (Key applied) of
             Inl err \<Rightarrow> []
           | Inr di \<Rightarrow>
               (case StateMinerPartitions t act (Index di) (Key applied) of
                  Inl err \<Rightarrow> []
                | Inr partitions \<Rightarrow>
                    map (\<lambda>pidx. \<lparr> SpID = aid, ProvingPeriodStart = PeriodStart di,
                                   DeadlineIndex = Index di, PartitionIndex = pidx \<rparr>)
                      [0..<length partitions])))"

text \<open>The bid as the specification words it: \<open>n + 10 - i\<close>, minus the failure count.\<close>

definition spec_bid :: "nat \<Rightarrow> nat \<Rightarrow> int \<Rightarrow> int" where
  "spec_bid n i failures = int n + 10 - int i - failures"

definition Open_le :: "wdTaskDef \<Rightarrow> wdTaskDef \<Rightarrow> bool" where
  "Open_le a b = (Open (dlInfo a) \<le> Open (dlInfo b))"

text \<open>
  What \<open>sort.Slice\<close> guarantees for the comparison \<open>less_Open\<close>: the result is a
  permutation of the slice, ascending in \<open>Open\<close>. The sort is not stable, so nothing
  is said about the order of tasks with equal \<open>Open\<close>.
\<close>

definition sort_Slice_contract :: "WdPostTask \<Rightarrow> bool" where
  "sort_Slice_contract t =
     (\<forall>xs. mset (sort_Slice t less_Open xs) = mset xs \<and>
           sorted_wrt Open_le (sort_Slice t less_Open xs))"

text \<open>The four tables are the same in two stores.\<close>

definition same_tables :: "world \<Rightarrow> world \<Rightarrow> bool" where
  "same_tables w w' =
     (wdpost_partition_tasks w' = wdpost_partition_tasks w \<and>
      wdpost_proofs w' = wdpost_proofs w \<and>
      harmony_test w' = harmony_test w \<and>
      harmony_task_history w' = harmony_task_history w)"

text \<open>
  \<open>Do\<close> as the claim words it for a task classified as not a test task: the
  reference for what \<open>Do\<close> does then. The table \<open>harmony_test\<close> is neither read nor
  written, the deadline is never adjusted, and the proof goes to \<open>wdpost_proofs\<close>.
\<close>

definition Do_as_non_test :: "policy \<Rightarrow> WdPostTask \<Rightarrow> world \<Rightarrow> nat \<Rightarrow> (bool \<times> error option) \<times> world" where
  "Do_as_non_test pol t w taskID =
     (case QueryRow_identity t w taskID of
        Inl err \<Rightarrow> ((False, Some err), w)
      | Inr ident \<Rightarrow>
          (case ChainHead t of
             Inl err \<Rightarrow> ((False, Some err), w)
           | Inr head \<Rightarrow>
               (let deadline = NewDeadlineInfo pol (ProvingPeriodStart ident) (DeadlineIndex ident)
                                 (Height head)
                in if PeriodElapsed deadline then ((True, None), w)
                   else
                     (case NewIDAddress (SpID ident) of
                        Inl err \<Rightarrow> ((False, Some err), w)
                      | Inr maddr \<Rightarrow>
                          (case ChainGetTipSetAfterHeight t (Challenge deadline) (Key head) of
                             Inl err \<Rightarrow> ((False, Some err), w)
                           | Inr ts \<Rightarrow>
                               (let w1 = w\<lparr>DoPartition_calls :=
                                             DoPartition_calls w @
                                             [(ts, maddr, deadline, PartitionIndex ident)]\<rparr>
                                in case DoPartition t ts maddr deadline (PartitionIndex ident) of
                                     Inl err \<Rightarrow> ((False, Some err), w1)
                                   | Inr postOut \<Rightarrow>
                                       (case MarshalCBOR t postOut of
                                          Inl err \<Rightarrow>
                                            ((False, Some (Errorf ''marshaling PoSt'' err)), w1)
                                        | Inr msgbuf \<Rightarrow>
                                            (case db_insert_proof t
                                                    (proof_record ident deadline msgbuf) of
                                               InsertFails err \<Rightarrow> ((False, Some err), w1)
                                             | InsertSuppressed \<Rightarrow> ((False, None), w1)
                                             | InsertStored \<Rightarrow>
                                                 ((True, None),
                                                  w1\<lparr>wdpost_proofs :=
                                                       wdpost_proofs w1 @
                                                       [proof_record ident deadline msgbuf]\<rparr>)))))))))"


text \<open>\<open>MaxFailures\<close> of \<open>TypeDetails\<close>.\<close>

definition TypeDetails_MaxFailures :: nat where
  "TypeDetails_MaxFailures = 5"

datatype task_state = offered | deleted

text \<open>
  Modelled from the spec: section 4.4 (state machine per task). The durable task
  runtime, which acts on the result of \<open>Do\<close>, is not under src/: a success deletes the
  task; a failure that is not the last allowed one (\<open>failures\<close> counts the failures
  recorded before this one) offers the task again; after \<open>MaxFailures\<close> failures the
  task is deleted.
\<close>

definition after_Do :: "bool \<times> error option \<Rightarrow> nat \<Rightarrow> task_state" where
  "after_Do r failures =
     (if fst r then deleted
      else if Suc failures < TypeDetails_MaxFailures then offered
      else deleted)"

subsection \<open>Scenarios\<close>

text \<open>
  Concrete collaborators and stores on which the properties are evaluated. The
  insertion sort is what \<open>sort.Slice\<close> runs on a slice of at most twelve elements.
\<close>

fun insert_less :: "('a \<Rightarrow> 'a \<Rightarrow> bool) \<Rightarrow> 'a \<Rightarrow> 'a list \<Rightarrow> 'a list" where
  "insert_less lt x [] = [x]"
| "insert_less lt x (y # ys) = (if lt x y then x # y # ys else y # insert_less lt x ys)"

fun insertionSort :: "('a \<Rightarrow> 'a \<Rightarrow> bool) \<Rightarrow> 'a list \<Rightarrow> 'a list \<Rightarrow> 'a list" where
  "insertionSort lt acc [] = acc"
| "insertionSort lt acc (x # xs) = insertionSort lt (insert_less lt x acc) xs"

definition pol0 :: policy where
  "pol0 = \<lparr> miner_WPoStPeriodDeadlines = 48, miner_WPoStProvingPeriod = 4800,
            miner_WPoStChallengeWindow = 100, miner_WPoStChallengeLookback = 20,
            miner_FaultDeclarationCutoff = 70 \<rparr>"

definition ts0 :: "nat \<Rightarrow> TipSet" where
  "ts0 h = \<lparr> Height = int h, Key = h \<rparr>"

text \<open>
  The head is at height \<open>h\<close>, and the key of a tipset is its height: a lookup above
  its anchor fails. Miner 1000 is in deadline 2 of a period started at epoch 0 and
  has three partitions there; the period of miner 2000 starts at epoch 500; the
  chain knows no other miner.
\<close>

definition task0 :: "nat \<Rightarrow> WdPostTask" where
  "task0 h =
     \<lparr> paramsReady = Inr True,
       ChainHead = Inr (ts0 h),
       ChainGetTipSetAfterHeight =
         (\<lambda>e k. if e > int k then Inl ErrChain else Inr \<lparr> Height = e, Key = k \<rparr>),
       StateMinerProvingDeadline =
         (\<lambda>a k. if a = IDAddress 1000 then Inr (NewDeadlineInfo pol0 0 2 (int k))
                else if a = IDAddress 2000 then Inr (NewDeadlineInfo pol0 500 0 (int k))
                else Inl ErrChain),
       StateMinerPartitions =
         (\<lambda>a i k. if a = IDAddress 1000 \<and> i = 2 then Inr [[1, 2], [3], [4]] else Inr []),
       windowPoStTF = True,
       db_fault = (\<lambda>s. None),
       db_insert_proof = (\<lambda>r. InsertStored),
       DoPartition = (\<lambda>ts a d p. Inr (PoSt [1, 2, 3])),
       MarshalCBOR = (\<lambda>p. case p of PoSt bs \<Rightarrow> Inr bs),
       MarshalIndent = (\<lambda>d. Inr ''{}''),
       sort_Slice = (\<lambda>lt xs. insertionSort lt [] xs) \<rparr>"

definition task_suppressed :: WdPostTask where
  "task_suppressed = (task0 450)\<lparr>db_insert_proof := (\<lambda>r. InsertSuppressed)\<rparr>"

definition task_prover_fails :: WdPostTask where
  "task_prover_fails = (task0 450)\<lparr>DoPartition := (\<lambda>ts a d p. Inl ErrProver)\<rparr>"

definition count_fails :: "WdPostTask \<Rightarrow> WdPostTask" where
  "count_fails t =
     t\<lparr>db_fault := (\<lambda>s. if s = CountHarmonyTest 0 then Some ErrDatabase else None)\<rparr>"

definition later_counts_fail :: "db_stmt \<Rightarrow> error option" where
  "later_counts_fail s =
     (case s of CountHarmonyTest k \<Rightarrow> if k = 0 then None else Some ErrDatabase | _ \<Rightarrow> None)"

definition ident0 :: "nat \<Rightarrow> nat \<Rightarrow> wdTaskIdentity" where
  "ident0 dl p = \<lparr> SpID = 1000, ProvingPeriodStart = 0, DeadlineIndex = dl, PartitionIndex = p \<rparr>"

definition world0 :: world where
  "world0 = \<lparr> wdpost_partition_tasks = [], wdpost_proofs = [], harmony_test = [],
              harmony_task_history = [], next_task_id = 1, DoPartition_calls = [] \<rparr>"

definition world_S3 :: world where
  "world_S3 = world0\<lparr> wdpost_partition_tasks := [(1, ident0 2 0)], next_task_id := 2 \<rparr>"


definition world_C5 :: world where
  "world_C5 = world0\<lparr> wdpost_partition_tasks := [(1, ident0 6 0), (2, ident0 5 0), (3, ident0 7 0)],
                      harmony_task_history := replicate 13 (1, False) @ [(1, True), (3, True)],
                      next_task_id := 4 \<rparr>"


definition ident_late :: wdTaskIdentity where
  "ident_late = \<lparr> SpID = 1000, ProvingPeriodStart = 9600, DeadlineIndex = 5, PartitionIndex = 0 \<rparr>"

definition world_mixed :: world where
  "world_mixed = world0\<lparr> wdpost_partition_tasks := [(1, ident0 2 0), (4, ident_late)],
                         next_task_id := 5 \<rparr>"

definition world_live :: world where
  "world_live = world0\<lparr> wdpost_partition_tasks := [(1, ident0 4 0)], next_task_id := 2 \<rparr>"


definition world_test_live :: world where
  "world_test_live = world0\<lparr> wdpost_partition_tasks := [(1, ident0 4 0)],
                             harmony_test := [(1, [])], next_task_id := 2 \<rparr>"

definition world_test_future :: world where
  "world_test_future = world0\<lparr> wdpost_partition_tasks := [(1, ident0 5 0)],
                               harmony_test := [(1, [])], next_task_id := 2 \<rparr>"

definition world_test :: world where
  "world_test = world0\<lparr> wdpost_partition_tasks := [(1, ident0 2 0)],
                        harmony_test := [(1, [])], next_task_id := 2 \<rparr>"

section \<open>The bidding admitter\<close>

lemma insert_less_mset: "mset (insert_less lt x ys) = add_mset x (mset ys)"
  by (induction ys) auto

lemma insertionSort_mset: "mset (insertionSort lt acc xs) = mset acc + mset xs"
  by (induction xs arbitrary: acc) (auto simp: insert_less_mset)

lemma insert_less_set: "set (insert_less lt x ys) = insert x (set ys)"
  by (induction ys) auto

lemma insert_less_Open_sorted:
  "sorted_wrt Open_le ys \<Longrightarrow> sorted_wrt Open_le (insert_less less_Open x ys)"
  by (induction ys) (auto simp: insert_less_set less_Open_def Open_le_def)

lemma insertionSort_Open_sorted:
  "sorted_wrt Open_le acc \<Longrightarrow> sorted_wrt Open_le (insertionSort less_Open acc xs)"
  by (induction xs arbitrary: acc) (auto simp: insert_less_Open_sorted)

lemma task0_sort_Slice_contract: "sort_Slice_contract (task0 h)"
  by (simp add: sort_Slice_contract_def task0_def insertionSort_mset insertionSort_Open_sorted)

lemma CanAccept_stale_eq:
  assumes "paramsReady t = Inr True" "ChainHead t = Inr ts" "Select_tasks t w ids = Inr rows"
      and "filter (\<lambda>d. PeriodElapsed (dlInfo d)) (map (with_dlInfo pol ts) rows) \<noteq> []"
  shows "CanAccept pol t w ids =
           Inr (map (\<lambda>d. (TaskID d, 1000))
                  (filter (\<lambda>d. PeriodElapsed (dlInfo d)) (map (with_dlInfo pol ts) rows)))"
  using assms by (simp add: CanAccept_def Let_def)

lemma CanAccept_live_eq:
  assumes "paramsReady t = Inr True" "ChainHead t = Inr ts" "Select_tasks t w ids = Inr rows"
      and "filter (\<lambda>d. PeriodElapsed (dlInfo d)) (map (with_dlInfo pol ts) rows) = []"
  shows "CanAccept pol t w ids =
           Inr (map (bid_of t w (sort_Slice t less_Open (map (with_dlInfo pol ts) rows)))
                  (enumerate 0 (sort_Slice t less_Open (map (with_dlInfo pol ts) rows))))"
  using assms by (simp add: CanAccept_def Let_def)

lemma CanAccept_Inr_cases:
  assumes "CanAccept pol t w ids = Inr bids"
  shows "(paramsReady t = Inr False \<and> bids = []) \<or>
         (paramsReady t = Inr True \<and>
          (\<exists>ts rows. ChainHead t = Inr ts \<and> Select_tasks t w ids = Inr rows))"
  using assms by (auto simp: CanAccept_def split: sum.splits if_splits)

lemma TaskID_with_dlInfo [simp]: "TaskID (with_dlInfo pol ts r) = fst r"
  by (simp add: with_dlInfo_def)

lemma Select_tasks_distinct:
  assumes "Select_tasks t w ids = Inr rows" "distinct (map fst (wdpost_partition_tasks w))"
  shows "distinct (map fst rows)"
  using assms by (auto simp: Select_tasks_def distinct_map_filter split: option.splits)

text \<open>
  Claim C4. When at least one task of the hydrated batch is stale (\<open>PeriodElapsed\<close> at
  the chain head), every pair that \<open>CanAccept\<close> returns is for a stale task and
  carries the bid 1000, and no live task of the batch receives a bid. Task ids are
  the primary key of \<open>wdpost_partition_tasks\<close>.
\<close>

theorem CanAccept_stale_priority:
  assumes ret: "CanAccept pol t w ids = Inr bids"
      and head: "ChainHead t = Inr ts"
      and sel: "Select_tasks t w ids = Inr rows"
      and pk: "distinct (map fst (wdpost_partition_tasks w))"
      and stale: "\<exists>d \<in> set (map (with_dlInfo pol ts) rows). PeriodElapsed (dlInfo d)"
  shows "(\<forall>b \<in> set bids. snd b = 1000 \<and>
            (\<exists>d \<in> set (map (with_dlInfo pol ts) rows).
               TaskID d = fst b \<and> PeriodElapsed (dlInfo d))) \<and>
         (\<forall>d \<in> set (map (with_dlInfo pol ts) rows).
            \<not> PeriodElapsed (dlInfo d) \<longrightarrow> TaskID d \<notin> fst ` set bids)"
proof -
  let ?tasks = "map (with_dlInfo pol ts) rows"
  let ?f = "filter (\<lambda>d. PeriodElapsed (dlInfo d)) ?tasks"
  from stale have ne: "?f \<noteq> []" by (auto simp: filter_empty_conv)
  from CanAccept_Inr_cases [OF ret] show ?thesis
  proof
    assume "paramsReady t = Inr False \<and> bids = []"
    then show ?thesis by simp
  next
    assume "paramsReady t = Inr True \<and>
      (\<exists>ts rows. ChainHead t = Inr ts \<and> Select_tasks t w ids = Inr rows)"
    then have rdy: "paramsReady t = Inr True" by simp
    from CanAccept_stale_eq [OF rdy head sel ne] ret
    have bids: "bids = map (\<lambda>d. (TaskID d, 1000)) ?f" by simp
    have dist: "distinct (map TaskID ?tasks)"
      using Select_tasks_distinct [OF sel pk] by (simp add: comp_def)
    have first: "\<forall>b \<in> set bids. snd b = 1000 \<and>
            (\<exists>d \<in> set ?tasks. TaskID d = fst b \<and> PeriodElapsed (dlInfo d))"
      unfolding bids by force
    have second: "\<forall>d \<in> set ?tasks. \<not> PeriodElapsed (dlInfo d) \<longrightarrow> TaskID d \<notin> fst ` set bids"
    proof (intro ballI impI notI)
      fix d assume d: "d \<in> set ?tasks" and live: "\<not> PeriodElapsed (dlInfo d)"
        and "TaskID d \<in> fst ` set bids"
      moreover have "fst ` set bids = TaskID ` set ?f"
        unfolding bids by (simp add: image_image)
      ultimately have "TaskID d \<in> TaskID ` set ?f" by simp
      then obtain d' where "d' \<in> set ?f" "TaskID d' = TaskID d" by (metis imageE)
      then have d': "d' \<in> set ?tasks" "PeriodElapsed (dlInfo d')" "TaskID d' = TaskID d"
        by simp_all
      from dist d d' have "d' = d" by (meson distinct_map inj_onD)
      with live d' show False by simp
    qed
    from first second show ?thesis by blast
  qed
qed

theorem CanAccept_stale_priority_witness:
  "CanAccept pol0 (task0 10000) world_mixed [1, 4] = Inr [(1, 1000)] \<and>
   ChainHead (task0 10000) = Inr (ts0 10000) \<and>
   Select_tasks (task0 10000) world_mixed [1, 4] = Inr [(1, ident0 2 0), (4, ident_late)] \<and>
   distinct (map fst (wdpost_partition_tasks world_mixed)) \<and>
   PeriodElapsed (dlInfo (with_dlInfo pol0 (ts0 10000) (1, ident0 2 0))) \<and>
   \<not> PeriodElapsed (dlInfo (with_dlInfo pol0 (ts0 10000) (4, ident_late))) \<and>
   snd (1 :: nat, 1000 :: int) = 1000 \<and>
   TaskID (with_dlInfo pol0 (ts0 10000) (4, ident_late)) \<notin> fst ` set [(1 :: nat, 1000 :: int)]"
proof -
  have ret: "CanAccept pol0 (task0 10000) world_mixed [1, 4] = Inr [(1, 1000)]" by code_simp
  have head: "ChainHead (task0 10000) = Inr (ts0 10000)" by code_simp
  have sel: "Select_tasks (task0 10000) world_mixed [1, 4] = Inr [(1, ident0 2 0), (4, ident_late)]"
    by code_simp
  have pk: "distinct (map fst (wdpost_partition_tasks world_mixed))" by code_simp
  have old: "PeriodElapsed (dlInfo (with_dlInfo pol0 (ts0 10000) (1, ident0 2 0)))" by code_simp
  have new: "\<not> PeriodElapsed (dlInfo (with_dlInfo pol0 (ts0 10000) (4, ident_late)))" by code_simp
  from old have stale: "\<exists>d \<in> set (map (with_dlInfo pol0 (ts0 10000)) [(1, ident0 2 0), (4, ident_late)]).
      PeriodElapsed (dlInfo d)" by simp
  from CanAccept_stale_priority [OF ret head sel pk stale] new
  have "snd (1 :: nat, 1000 :: int) = 1000"
    and "TaskID (with_dlInfo pol0 (ts0 10000) (4, ident_late)) \<notin> fst ` set [(1 :: nat, 1000 :: int)]"
    by simp_all
  with ret head sel pk old new show ?thesis by blast
qed

lemma map_enumerate_nth:
  "map g (enumerate 0 xs) = map (\<lambda>i. g (i, xs ! i)) [0..<length xs]"
  by (rule nth_equalityI) (simp_all add: nth_enumerate_eq)


lemma mset_eq_length_rows:
  "mset ys = mset (map f rows) \<Longrightarrow> length ys = length rows"
  by (metis length_map size_mset)

lemma sorted_head_least:
  assumes "sorted_wrt Open_le s" "d \<in> set s"
  shows "Open (dlInfo (s ! 0)) \<le> Open (dlInfo d)"
proof (cases s)
  case Nil
  with assms show ?thesis by simp
next
  case (Cons x xs)
  with assms show ?thesis by (auto simp: Open_le_def)
qed

text \<open>
  Claim C5. For a batch of live tasks only, with \<open>n\<close> the number of tasks:
  \<open>CanAccept\<close> returns, for the tasks sorted ascending by \<open>Open\<close>, at position \<open>i\<close> the
  bid \<open>n + 10 - i\<close> minus the failure penalty of that task. The base bid falls
  strictly with the position, so the task at position 0, which opens earliest, has
  the strictly largest base bid. The penalty is the count of failed attempts in
  \<open>harmony_task_history\<close> whenever the count query succeeds; the bid is an integer
  that is not clamped at zero.
\<close>

theorem CanAccept_live_bids:
  assumes srt: "sort_Slice_contract t"
      and rdy: "paramsReady t = Inr True"
      and head: "ChainHead t = Inr ts"
      and sel: "Select_tasks t w ids = Inr rows"
      and live: "\<forall>d \<in> set (map (with_dlInfo pol ts) rows). \<not> PeriodElapsed (dlInfo d)"
  shows "mset (sort_Slice t less_Open (map (with_dlInfo pol ts) rows)) =
           mset (map (with_dlInfo pol ts) rows) \<and>
         sorted_wrt Open_le (sort_Slice t less_Open (map (with_dlInfo pol ts) rows)) \<and>
         CanAccept pol t w ids =
           Inr (map (\<lambda>i. (TaskID (sort_Slice t less_Open (map (with_dlInfo pol ts) rows) ! i),
                          spec_bid (length rows) i
                            (history_penalty t w
                               (TaskID (sort_Slice t less_Open (map (with_dlInfo pol ts) rows) ! i)))))
                  [0..<length rows]) \<and>
         (\<forall>i j. i < j \<longrightarrow> spec_bid (length rows) j 0 < spec_bid (length rows) i 0) \<and>
         (\<forall>d \<in> set (map (with_dlInfo pol ts) rows).
            Open (dlInfo (sort_Slice t less_Open (map (with_dlInfo pol ts) rows) ! 0))
              \<le> Open (dlInfo d)) \<and>
         (\<forall>taskID. db_fault t (CountHistory taskID) = None \<longrightarrow>
            history_penalty t w taskID = failure_count w taskID)"
proof -
  let ?tasks = "map (with_dlInfo pol ts) rows"
  let ?s = "sort_Slice t less_Open ?tasks"
  from srt have m: "mset ?s = mset ?tasks" and so: "sorted_wrt Open_le ?s"
    by (simp_all add: sort_Slice_contract_def)
  from m have len: "length ?s = length rows" by (rule mset_eq_length_rows)
  from live have "filter (\<lambda>d. PeriodElapsed (dlInfo d)) ?tasks = []"
    by (simp add: filter_empty_conv)
  from CanAccept_live_eq [OF rdy head sel this]
  have ret: "CanAccept pol t w ids =
           Inr (map (\<lambda>i. (TaskID (?s ! i),
                          spec_bid (length rows) i (history_penalty t w (TaskID (?s ! i)))))
                  [0..<length rows])"
    by (simp add: map_enumerate_nth bid_of_def spec_bid_def len)
  have base: "\<forall>i j. i < j \<longrightarrow> spec_bid (length rows) j 0 < spec_bid (length rows) i 0"
    by (simp add: spec_bid_def)
  have least: "\<forall>d \<in> set ?tasks. Open (dlInfo (?s ! 0)) \<le> Open (dlInfo d)"
  proof
    fix d assume "d \<in> set ?tasks"
    with m have "d \<in> set ?s" by (metis set_mset_mset)
    with so show "Open (dlInfo (?s ! 0)) \<le> Open (dlInfo d)" by (rule sorted_head_least)
  qed
  have pen: "\<forall>taskID. db_fault t (CountHistory taskID) = None \<longrightarrow>
            history_penalty t w taskID = failure_count w taskID"
    by (simp add: history_penalty_def)
  from m so ret base least pen show ?thesis by blast
qed

theorem CanAccept_live_bids_witness:
  "sort_Slice_contract (task0 450) \<and>
   paramsReady (task0 450) = Inr True \<and>
   ChainHead (task0 450) = Inr (ts0 450) \<and>
   Select_tasks (task0 450) world_C5 [1, 2, 3] =
     Inr [(1, ident0 6 0), (2, ident0 5 0), (3, ident0 7 0)] \<and>
   \<not> PeriodElapsed (dlInfo (with_dlInfo pol0 (ts0 450) (1, ident0 6 0))) \<and>
   \<not> PeriodElapsed (dlInfo (with_dlInfo pol0 (ts0 450) (2, ident0 5 0))) \<and>
   \<not> PeriodElapsed (dlInfo (with_dlInfo pol0 (ts0 450) (3, ident0 7 0))) \<and>
   CanAccept pol0 (task0 450) world_C5 [1, 2, 3] = Inr [(2, 13), (1, - 1), (3, 11)] \<and>
   map (\<lambda>d. Open (dlInfo d))
     (sort_Slice (task0 450) less_Open
        (map (with_dlInfo pol0 (ts0 450)) [(1, ident0 6 0), (2, ident0 5 0), (3, ident0 7 0)])) =
     [500, 600, 700] \<and>
   failure_count world_C5 1 = 13 \<and>
   spec_bid (length [(1 :: nat, ident0 6 0), (2, ident0 5 0), (3, ident0 7 0)]) 1 0 <
     spec_bid (length [(1 :: nat, ident0 6 0), (2, ident0 5 0), (3, ident0 7 0)]) 0 0"
proof -
  have srt: "sort_Slice_contract (task0 450)" by (rule task0_sort_Slice_contract)
  have rdy: "paramsReady (task0 450) = Inr True" by code_simp
  have head: "ChainHead (task0 450) = Inr (ts0 450)" by code_simp
  have sel: "Select_tasks (task0 450) world_C5 [1, 2, 3] =
     Inr [(1, ident0 6 0), (2, ident0 5 0), (3, ident0 7 0)]" by code_simp
  have l1: "\<not> PeriodElapsed (dlInfo (with_dlInfo pol0 (ts0 450) (1, ident0 6 0)))" by code_simp
  have l2: "\<not> PeriodElapsed (dlInfo (with_dlInfo pol0 (ts0 450) (2, ident0 5 0)))" by code_simp
  have l3: "\<not> PeriodElapsed (dlInfo (with_dlInfo pol0 (ts0 450) (3, ident0 7 0)))" by code_simp
  from l1 l2 l3 have live: "\<forall>d \<in> set (map (with_dlInfo pol0 (ts0 450))
      [(1, ident0 6 0), (2, ident0 5 0), (3, ident0 7 0)]). \<not> PeriodElapsed (dlInfo d)" by simp
  have opens: "map (\<lambda>d. Open (dlInfo d))
     (sort_Slice (task0 450) less_Open
        (map (with_dlInfo pol0 (ts0 450)) [(1, ident0 6 0), (2, ident0 5 0), (3, ident0 7 0)])) =
     [500, 600, 700]" by code_simp
  have fc: "failure_count world_C5 1 = 13" by code_simp
  have ret: "CanAccept pol0 (task0 450) world_C5 [1, 2, 3] = Inr [(2, 13), (1, - 1), (3, 11)]"
    by code_simp
  from CanAccept_live_bids [OF srt rdy head sel live]
  have base: "\<forall>i j. i < j \<longrightarrow>
      spec_bid (length [(1 :: nat, ident0 6 0), (2, ident0 5 0), (3, ident0 7 0)]) j 0 <
      spec_bid (length [(1 :: nat, ident0 6 0), (2, ident0 5 0), (3, ident0 7 0)]) i 0"
    by blast
  have "spec_bid (length [(1 :: nat, ident0 6 0), (2, ident0 5 0), (3, ident0 7 0)]) 1 0 <
     spec_bid (length [(1 :: nat, ident0 6 0), (2, ident0 5 0), (3, ident0 7 0)]) 0 0"
    by (rule base [rule_format]) simp
  with srt rdy head sel l1 l2 l3 opens fc ret show ?thesis by blast
qed








section \<open>The partition prover\<close>

lemma isTestTask_no_row:
  "count_harmony_test w taskID = 0 \<Longrightarrow>
   fst (isTestTask t w taskID l) = (case fst l of Some c \<Rightarrow> c > 0 | None \<Rightarrow> False)"
  by (simp add: isTestTask_def split: option.splits)

text \<open>
  Claim C2. For a task whose identity row is loaded, whose deadline at the height of
  the chain head satisfies \<open>PeriodElapsed\<close> and which has no row in \<open>harmony_test\<close>,
  \<open>Do\<close> returns success (done, no error) and leaves the store as it was: no row is
  written to \<open>wdpost_proofs\<close> and \<open>harmony_test\<close> is not modified.
\<close>

theorem Do_stale_reap:
  assumes "QueryRow_identity t w taskID = Inr ident"
      and "ChainHead t = Inr head"
      and "PeriodElapsed (NewDeadlineInfo pol (ProvingPeriodStart ident) (DeadlineIndex ident) (Height head))"
      and "count_harmony_test w taskID = 0"
  shows "Do pol t w taskID = ((True, None), w)"
  using assms by (simp add: Do_def stale_reap_def Let_def isTestTask_no_row)

theorem Do_stale_reap_witness:
  "QueryRow_identity (task0 10000) world_S3 1 = Inr (ident0 2 0) \<and>
   ChainHead (task0 10000) = Inr (ts0 10000) \<and>
   PeriodElapsed (NewDeadlineInfo pol0 (ProvingPeriodStart (ident0 2 0)) (DeadlineIndex (ident0 2 0))
      (Height (ts0 10000))) \<and>
   count_harmony_test world_S3 1 = 0 \<and>
   Do pol0 (task0 10000) world_S3 1 = ((True, None), world_S3)"
proof -
  have h1: "QueryRow_identity (task0 10000) world_S3 1 = Inr (ident0 2 0)" by code_simp
  have h2: "ChainHead (task0 10000) = Inr (ts0 10000)" by code_simp
  have h3: "PeriodElapsed (NewDeadlineInfo pol0 (ProvingPeriodStart (ident0 2 0))
      (DeadlineIndex (ident0 2 0)) (Height (ts0 10000)))" by code_simp
  have h4: "count_harmony_test world_S3 1 = 0" by code_simp
  from Do_stale_reap [OF h1 h2 h3 h4] h1 h2 h3 h4 show ?thesis by simp
qed

lemma Do_persist_failure:
  assumes "Do_persist t w taskID ident deadline postOut l = ((False, Some err), w')"
  shows "w' = w"
  using assms
  by (auto simp: Do_persist_def Exec_update_harmony_test_def Exec_insert_proof_def
           split: sum.splits if_splits option.splits insert_outcome.splits prod.splits)

lemma Do_prove_failure:
  assumes "Do_prove t w taskID ident head deadline l = ((False, Some err), w')"
  shows "same_tables w w'"
  using assms
  by (auto simp: Do_prove_def Let_def same_tables_def dest!: Do_persist_failure
           split: sum.splits)

text \<open>
  Claim C9. Whenever \<open>Do\<close> returns a failure, that is not done together with an
  error, the four tables are as they were before the call: no row has been inserted
  into \<open>wdpost_proofs\<close> and no \<open>result\<close> of \<open>harmony_test\<close> has been updated.
\<close>

theorem Do_failure_keeps_tables:
  assumes "Do pol t w taskID = ((False, Some err), w')"
  shows "same_tables w w'"
  using assms
  by (auto simp: Do_def Let_def same_tables_def dest!: Do_prove_failure
           split: sum.splits if_splits)

theorem Do_failure_keeps_tables_witness:
  "fst (Do pol0 task_prover_fails world_live 1) = (False, Some ErrProver) \<and>
   same_tables world_live (snd (Do pol0 task_prover_fails world_live 1)) \<and>
   wdpost_proofs (snd (Do pol0 task_prover_fails world_live 1)) = [] \<and>
   harmony_test (snd (Do pol0 task_prover_fails world_live 1)) = []"
proof -
  have r: "fst (Do pol0 task_prover_fails world_live 1) = (False, Some ErrProver)" by code_simp
  then have "Do pol0 task_prover_fails world_live 1 =
      ((False, Some ErrProver), snd (Do pol0 task_prover_fails world_live 1))"
    by (metis prod.collapse)
  from Do_failure_keeps_tables [OF this]
  have s: "same_tables world_live (snd (Do pol0 task_prover_fails world_live 1))" .
  have w: "wdpost_proofs world_live = []" "harmony_test world_live = []" by code_simp+
  from s w have "wdpost_proofs (snd (Do pol0 task_prover_fails world_live 1)) = []"
    and "harmony_test (snd (Do pol0 task_prover_fails world_live 1)) = []"
    by (simp_all add: same_tables_def)
  with r s show ?thesis by blast
qed

lemma isTestTask_memo:
  assumes "isTestTask t w taskID l = (b, l')"
  shows "isTestTask t' w' taskID' l' = (b, l')"
  using assms by (auto simp: isTestTask_def Let_def split: option.splits)

lemma isTestTask_fault:
  assumes "db_fault t (CountHarmonyTest 0) = Some err"
  shows "isTestTask t w taskID (None, 0) = (False, (Some 0, Suc 0))"
  using assms by (simp add: isTestTask_def)

lemma stale_reap_fault:
  assumes "db_fault t (CountHarmonyTest 0) = Some err"
  shows "stale_reap t w taskID deadline =
           (PeriodElapsed deadline, if PeriodElapsed deadline then (Some 0, Suc 0) else (None, 0))"
  using assms by (simp add: stale_reap_def isTestTask_def)

lemma adjust_deadline_fault:
  assumes "db_fault t (CountHarmonyTest 0) = Some err"
  shows "adjust_deadline pol t w taskID ident head deadline (None, 0) =
           (deadline, if Challenge deadline > Height head then (Some 0, Suc 0) else (None, 0))"
  using assms by (simp add: adjust_deadline_def isTestTask_def)

lemma isTestTask_fault_later:
  assumes "db_fault t (CountHarmonyTest 0) = Some err"
      and "l = (None, 0) \<or> l = (Some 0, Suc 0)"
  shows "fst (isTestTask t w taskID l) = False"
  using assms by (auto simp: isTestTask_def)

lemma Do_persist_fault:
  assumes f: "db_fault t (CountHarmonyTest 0) = Some err"
      and l: "l = (None, 0) \<or> l = (Some 0, Suc 0)"
  shows "Do_persist t w taskID ident deadline postOut l =
           (case MarshalCBOR t postOut of
              Inl e \<Rightarrow> ((False, Some (Errorf ''marshaling PoSt'' e)), w)
            | Inr msgbuf \<Rightarrow>
                (case db_insert_proof t (proof_record ident deadline msgbuf) of
                   InsertFails e \<Rightarrow> ((False, Some e), w)
                 | InsertSuppressed \<Rightarrow> ((False, None), w)
                 | InsertStored \<Rightarrow>
                     ((True, None),
                      w\<lparr>wdpost_proofs := wdpost_proofs w @ [proof_record ident deadline msgbuf]\<rparr>)))"
  using isTestTask_fault_later [OF f l, of w taskID]
  by (simp add: Do_persist_def Exec_insert_proof_def split: sum.splits insert_outcome.splits)

lemma Do_fault_as_non_test:
  assumes f: "db_fault t (CountHarmonyTest 0) = Some err"
  shows "Do pol t w taskID = Do_as_non_test pol t w taskID"
proof (cases "QueryRow_identity t w taskID")
  case (Inl e)
  then show ?thesis by (simp add: Do_def Do_as_non_test_def)
next
  case (Inr ident)
  note ident = this
  show ?thesis
  proof (cases "ChainHead t")
    case (Inl e)
    with ident show ?thesis by (simp add: Do_def Do_as_non_test_def)
  next
    case (Inr head)
    let ?d = "NewDeadlineInfo pol (ProvingPeriodStart ident) (DeadlineIndex ident) (Height head)"
    show ?thesis
    proof (cases "PeriodElapsed ?d")
      case True
      with ident Inr show ?thesis
        by (simp add: Do_def Do_as_non_test_def Let_def stale_reap_fault [OF f])
    next
      case False
      define l :: "int option \<times> nat"
        where "l = (if Challenge ?d > Height head then (Some 0, Suc 0) else (None, 0))"
      have l: "l = (None, 0) \<or> l = (Some 0, Suc 0)" by (simp add: l_def)
      from ident Inr False
      have a: "Do pol t w taskID = Do_prove t w taskID ident head ?d l"
        by (simp add: Do_def Let_def stale_reap_fault [OF f] adjust_deadline_fault [OF f] l_def)
      note p = Do_persist_fault [OF f l, of _ taskID ident ?d]
      from ident Inr False show ?thesis
        unfolding a
        by (simp add: Do_prove_def Do_as_non_test_def Let_def p split: sum.splits)
    qed
  qed
qed

lemma isTestTask_later_counts:
  assumes "g (CountHarmonyTest 0) = db_fault t (CountHarmonyTest 0)"
      and "fst l = None \<longrightarrow> snd l = 0"
  shows "isTestTask (t\<lparr>db_fault := g\<rparr>) w taskID l = isTestTask t w taskID l"
  using assms by (cases l) (auto simp: isTestTask_def split: option.splits)

lemma isTestTask_locals:
  "fst (snd (isTestTask t w taskID l)) \<noteq> None"
  by (cases l) (auto simp: isTestTask_def Let_def split: option.splits)

lemma Do_later_counts:
  assumes g: "\<forall>s. (\<forall>k. s \<noteq> CountHarmonyTest (Suc k)) \<longrightarrow> g s = db_fault t s"
  shows "Do pol (t\<lparr>db_fault := g\<rparr>) w taskID = Do pol t w taskID"
proof -
  from g have g0: "g (CountHarmonyTest 0) = db_fault t (CountHarmonyTest 0)"
    and gs: "g SelectIdentity = db_fault t SelectIdentity"
    and gu: "g UpdateHarmonyTest = db_fault t UpdateHarmonyTest"
    by simp_all
  have q: "QueryRow_identity (t\<lparr>db_fault := g\<rparr>) w taskID = QueryRow_identity t w taskID"
    by (simp add: QueryRow_identity_def gs)
  have i: "\<And>v l. (fst l = None \<longrightarrow> snd l = 0) \<Longrightarrow>
      isTestTask (t\<lparr>db_fault := g\<rparr>) v taskID l = isTestTask t v taskID l"
    using g0 by (rule isTestTask_later_counts [where g = g and t = t])
  have s: "\<And>d. stale_reap (t\<lparr>db_fault := g\<rparr>) w taskID d = stale_reap t w taskID d"
    by (simp add: stale_reap_def i)
  have sl: "\<And>d. fst (snd (stale_reap t w taskID d)) = None \<longrightarrow> snd (snd (stale_reap t w taskID d)) = 0"
    by (simp add: stale_reap_def Let_def isTestTask_locals)
  have a: "\<And>ident head d l. (fst l = None \<longrightarrow> snd l = 0) \<Longrightarrow>
      adjust_deadline pol (t\<lparr>db_fault := g\<rparr>) w taskID ident head d l =
      adjust_deadline pol t w taskID ident head d l"
    by (simp add: adjust_deadline_def i)
  have al: "\<And>ident head d l. (fst l = None \<longrightarrow> snd l = 0) \<Longrightarrow>
      fst (snd (adjust_deadline pol t w taskID ident head d l)) = None \<longrightarrow>
      snd (snd (adjust_deadline pol t w taskID ident head d l)) = 0"
    by (auto simp: adjust_deadline_def Let_def isTestTask_locals)
  have u: "\<And>v data. Exec_update_harmony_test (t\<lparr>db_fault := g\<rparr>) v data taskID =
      Exec_update_harmony_test t v data taskID"
    by (simp add: Exec_update_harmony_test_def gu)
  have p: "\<And>v ident d postOut l. (fst l = None \<longrightarrow> snd l = 0) \<Longrightarrow>
      Do_persist (t\<lparr>db_fault := g\<rparr>) v taskID ident d postOut l =
      Do_persist t v taskID ident d postOut l"
    by (simp add: Do_persist_def i u Exec_insert_proof_def cong: sum.case_cong if_cong)
  have r: "\<And>ident head d l. (fst l = None \<longrightarrow> snd l = 0) \<Longrightarrow>
      Do_prove (t\<lparr>db_fault := g\<rparr>) w taskID ident head d l = Do_prove t w taskID ident head d l"
    by (simp add: Do_prove_def Let_def p cong: sum.case_cong)
  show ?thesis
    by (simp add: Do_def Let_def q s a [OF sl] r [OF al [OF sl]] cong: sum.case_cong if_cong)
qed

text \<open>
  Claim C10. When the count query on \<open>harmony_test\<close> fails inside \<open>Do\<close>, \<open>isTestTask\<close>
  answers false and \<open>Do\<close> does not return the error of the query: it runs exactly as
  \<open>Do_as_non_test\<close>, which reaps a stale task, never adjusts the deadline (the
  check after the stale reap) and inserts the proof into \<open>wdpost_proofs\<close> (the check
  before persisting), whatever \<open>harmony_test\<close> holds. The answer of the first call of
  \<open>isTestTask\<close> is memoized: every later call returns the same answer and issues no
  query, and the result of \<open>Do\<close> does not depend on what a second or third count
  query would answer.
\<close>

theorem Do_test_query_fault:
  "(db_fault t (CountHarmonyTest 0) \<noteq> None \<longrightarrow>
      isTestTask t w taskID (None, 0) = (False, (Some 0, Suc 0)) \<and>
      Do pol t w taskID = Do_as_non_test pol t w taskID) \<and>
   (\<forall>l b l' t' w'. isTestTask t w taskID l = (b, l') \<longrightarrow>
      isTestTask t' w' taskID l' = (b, l')) \<and>
   ((\<forall>s. (\<forall>k. s \<noteq> CountHarmonyTest (Suc k)) \<longrightarrow> g s = db_fault t s) \<longrightarrow>
      Do pol (t\<lparr>db_fault := g\<rparr>) w taskID = Do pol t w taskID)"
proof (intro conjI impI)
  assume "db_fault t (CountHarmonyTest 0) \<noteq> None"
  then obtain err where f: "db_fault t (CountHarmonyTest 0) = Some err" by blast
  from f show "isTestTask t w taskID (None, 0) = (False, (Some 0, Suc 0))"
    by (rule isTestTask_fault)
  from f show "Do pol t w taskID = Do_as_non_test pol t w taskID"
    by (rule Do_fault_as_non_test)
next
  show "\<forall>l b l' t' w'. isTestTask t w taskID l = (b, l') \<longrightarrow>
      isTestTask t' w' taskID l' = (b, l')"
    by (blast intro: isTestTask_memo)
next
  assume "\<forall>s. (\<forall>k. s \<noteq> CountHarmonyTest (Suc k)) \<longrightarrow> g s = db_fault t s"
  then show "Do pol (t\<lparr>db_fault := g\<rparr>) w taskID = Do pol t w taskID"
    by (rule Do_later_counts)
qed


theorem Do_test_query_fault_witness:
  "db_fault (count_fails (task0 450)) (CountHarmonyTest 0) \<noteq> None \<and>
   count_harmony_test world_test_future 1 = 1 \<and>
   isTestTask (count_fails (task0 450)) world_test_future 1 (None, 0) = (False, (Some 0, Suc 0)) \<and>
   isTestTask (task0 450) world_test_future 1 (None, 0) = (True, (Some 1, Suc 0)) \<and>
   isTestTask (task0 450) world_test_future 1 (Some 0, Suc 0) = (False, (Some 0, Suc 0)) \<and>
   Do pol0 (count_fails (task0 450)) world_test_future 1 =
     Do_as_non_test pol0 (count_fails (task0 450)) world_test_future 1 \<and>
   Do pol0 (count_fails (task0 450)) world_test_future 1 = ((False, Some ErrChain), world_test_future) \<and>
   fst (Do pol0 (count_fails (task0 450)) world_test_live 1) = (True, None) \<and>
   wdpost_proofs (snd (Do pol0 (count_fails (task0 450)) world_test_live 1)) =
     [proof_record (ident0 4 0) (NewDeadlineInfo pol0 0 4 450) [1, 2, 3]] \<and>
   harmony_test (snd (Do pol0 (count_fails (task0 450)) world_test_live 1)) = [(1, [])] \<and>
   Do pol0 (count_fails (task0 10000)) world_test 1 = ((True, None), world_test) \<and>
   Do pol0 ((task0 450)\<lparr>db_fault := later_counts_fail\<rparr>) world_test_future 1 =
     Do pol0 (task0 450) world_test_future 1 \<and>
   fst (Do pol0 (task0 450) world_test_future 1) = (True, None) \<and>
   harmony_test (snd (Do pol0 (task0 450) world_test_future 1)) = [(1, ''{}'')]"
proof -
  have f: "db_fault (count_fails (task0 450)) (CountHarmonyTest 0) \<noteq> None" by code_simp
  have c: "count_harmony_test world_test_future 1 = 1" by code_simp
  note future = Do_test_query_fault [where t = "count_fails (task0 450)" and w = world_test_future
      and taskID = 1 and pol = pol0 and g = later_counts_fail]
  from future f
  have first: "isTestTask (count_fails (task0 450)) world_test_future 1 (None, 0) =
      (False, (Some 0, Suc 0))"
    and nontest: "Do pol0 (count_fails (task0 450)) world_test_future 1 =
      Do_as_non_test pol0 (count_fails (task0 450)) world_test_future 1"
    by blast+
  have fresh: "isTestTask (task0 450) world_test_future 1 (None, 0) = (True, (Some 1, Suc 0))"
    by code_simp
  from future first
  have later: "isTestTask (task0 450) world_test_future 1 (Some 0, Suc 0) = (False, (Some 0, Suc 0))"
    by blast
  have "Do_as_non_test pol0 (count_fails (task0 450)) world_test_future 1 =
      ((False, Some ErrChain), world_test_future)" by code_simp
  with nontest
  have deferred: "Do pol0 (count_fails (task0 450)) world_test_future 1 =
      ((False, Some ErrChain), world_test_future)" by simp
  have live: "fst (Do pol0 (count_fails (task0 450)) world_test_live 1) = (True, None)"
    "wdpost_proofs (snd (Do pol0 (count_fails (task0 450)) world_test_live 1)) =
       [proof_record (ident0 4 0) (NewDeadlineInfo pol0 0 4 450) [1, 2, 3]]"
    "harmony_test (snd (Do pol0 (count_fails (task0 450)) world_test_live 1)) = [(1, [])]"
    by code_simp+
  have reap: "Do pol0 (count_fails (task0 10000)) world_test 1 = ((True, None), world_test)"
    by code_simp
  have g: "\<forall>s. (\<forall>k. s \<noteq> CountHarmonyTest (Suc k)) \<longrightarrow>
      later_counts_fail s = db_fault (task0 450) s"
  proof (intro allI impI)
    fix s assume "\<forall>k. s \<noteq> CountHarmonyTest (Suc k)"
    then show "later_counts_fail s = db_fault (task0 450) s"
      by (cases s) (auto simp: later_counts_fail_def task0_def gr0_conv_Suc)
  qed
  from Do_test_query_fault [where t = "task0 450" and w = world_test_future
      and taskID = 1 and pol = pol0 and g = later_counts_fail] g
  have memo: "Do pol0 ((task0 450)\<lparr>db_fault := later_counts_fail\<rparr>) world_test_future 1 =
     Do pol0 (task0 450) world_test_future 1" by blast
  have test: "fst (Do pol0 (task0 450) world_test_future 1) = (True, None)"
    "harmony_test (snd (Do pol0 (task0 450) world_test_future 1)) = [(1, ''{}'')]"
    by code_simp+
  from f c first fresh later nontest deferred live reap memo test show ?thesis by blast
qed

lemma Do_live_nontest:
  assumes id: "QueryRow_identity t w taskID = Inr ident"
      and head: "ChainHead t = Inr head"
      and live: "\<not> PeriodElapsed (NewDeadlineInfo pol (ProvingPeriodStart ident) (DeadlineIndex ident) (Height head))"
      and nontest: "count_harmony_test w taskID = 0"
  shows "\<exists>l. (l = (None, 0) \<or> l = (Some 0, Suc 0)) \<and> Do pol t w taskID =
           Do_prove t w taskID ident head
             (NewDeadlineInfo pol (ProvingPeriodStart ident) (DeadlineIndex ident) (Height head)) l"
  using assms
  by (auto simp: Do_def Let_def stale_reap_def adjust_deadline_def isTestTask_def
           split: option.splits)

lemma Do_persist_nontest:
  assumes nontest: "count_harmony_test w taskID = 0"
      and l: "l = (None, 0) \<or> l = (Some 0, Suc 0)"
      and cbor: "MarshalCBOR t postOut = Inr msgbuf"
  shows "Do_persist t w taskID ident deadline postOut l =
           (case db_insert_proof t (proof_record ident deadline msgbuf) of
              InsertFails e \<Rightarrow> ((False, Some e), w)
            | InsertSuppressed \<Rightarrow> ((False, None), w)
            | InsertStored \<Rightarrow>
                ((True, None), w\<lparr>wdpost_proofs := wdpost_proofs w @ [proof_record ident deadline msgbuf]\<rparr>))"
  using assms
  by (auto simp: Do_persist_def isTestTask_def Exec_insert_proof_def
           split: option.splits insert_outcome.splits)

lemma count_harmony_test_calls [simp]:
  "count_harmony_test (w\<lparr>DoPartition_calls := c\<rparr>) taskID = count_harmony_test w taskID"
  by (simp add: count_harmony_test_def)

text \<open>
  Claim C6, as amended. On the live path of \<open>Do\<close> (the task has no test record), after
  a successful proof generation and marshalling, \<open>Do\<close> issues one INSERT of one
  proof record. When the database stores the row, \<open>Do\<close> returns success and
  \<open>wdpost_proofs\<close> has grown by exactly that row. When the insert affects zero rows,
  \<open>Do\<close> returns not done with a nil error and \<open>wdpost_proofs\<close> is unchanged; the
  failure is not terminal: the runtime offers the task again while fewer than
  \<open>MaxFailures\<close> failures are recorded. When the insert fails, \<open>Do\<close> returns that
  error and \<open>wdpost_proofs\<close> is unchanged.
\<close>

theorem Do_live_insert:
  assumes id: "QueryRow_identity t w taskID = Inr ident"
      and head: "ChainHead t = Inr head"
      and live: "\<not> PeriodElapsed (NewDeadlineInfo pol (ProvingPeriodStart ident) (DeadlineIndex ident) (Height head))"
      and nontest: "count_harmony_test w taskID = 0"
      and addr: "NewIDAddress (SpID ident) = Inr maddr"
      and ts: "ChainGetTipSetAfterHeight t
                 (Challenge (NewDeadlineInfo pol (ProvingPeriodStart ident) (DeadlineIndex ident) (Height head)))
                 (Key head) = Inr ts"
      and post: "DoPartition t ts maddr
                   (NewDeadlineInfo pol (ProvingPeriodStart ident) (DeadlineIndex ident) (Height head))
                   (PartitionIndex ident) = Inr postOut"
      and cbor: "MarshalCBOR t postOut = Inr msgbuf"
  shows "(db_insert_proof t (proof_record ident
              (NewDeadlineInfo pol (ProvingPeriodStart ident) (DeadlineIndex ident) (Height head)) msgbuf)
            = InsertStored \<longrightarrow>
          fst (Do pol t w taskID) = (True, None) \<and>
          wdpost_proofs (snd (Do pol t w taskID)) =
            wdpost_proofs w @ [proof_record ident
              (NewDeadlineInfo pol (ProvingPeriodStart ident) (DeadlineIndex ident) (Height head)) msgbuf]) \<and>
         (db_insert_proof t (proof_record ident
              (NewDeadlineInfo pol (ProvingPeriodStart ident) (DeadlineIndex ident) (Height head)) msgbuf)
            = InsertSuppressed \<longrightarrow>
          fst (Do pol t w taskID) = (False, None) \<and>
          wdpost_proofs (snd (Do pol t w taskID)) = wdpost_proofs w \<and>
          (\<forall>failures. Suc failures < TypeDetails_MaxFailures \<longrightarrow>
             after_Do (fst (Do pol t w taskID)) failures = offered)) \<and>
         (\<forall>e. db_insert_proof t (proof_record ident
              (NewDeadlineInfo pol (ProvingPeriodStart ident) (DeadlineIndex ident) (Height head)) msgbuf)
            = InsertFails e \<longrightarrow>
          fst (Do pol t w taskID) = (False, Some e) \<and>
          wdpost_proofs (snd (Do pol t w taskID)) = wdpost_proofs w)"
proof -
  let ?d = "NewDeadlineInfo pol (ProvingPeriodStart ident) (DeadlineIndex ident) (Height head)"
  let ?w1 = "w\<lparr>DoPartition_calls := DoPartition_calls w @ [(ts, maddr, ?d, PartitionIndex ident)]\<rparr>"
  from Do_live_nontest [OF id head live nontest]
  obtain l where l: "l = (None, 0) \<or> l = (Some 0, Suc 0)"
    and eq: "Do pol t w taskID = Do_prove t w taskID ident head ?d l" by blast
  have nt1: "count_harmony_test ?w1 taskID = 0" using nontest by simp
  have eq2: "Do pol t w taskID = Do_persist t ?w1 taskID ident ?d postOut l"
    unfolding eq using addr ts post by (simp add: Do_prove_def Let_def)
  note p = Do_persist_nontest [OF nt1 l cbor, of ident ?d]
  show ?thesis
    unfolding eq2 p by (simp add: after_Do_def split: insert_outcome.splits)
qed

theorem Do_live_insert_witness:
  "QueryRow_identity (task0 450) world_live 1 = Inr (ident0 4 0) \<and>
   ChainHead (task0 450) = Inr (ts0 450) \<and>
   \<not> PeriodElapsed (NewDeadlineInfo pol0 (ProvingPeriodStart (ident0 4 0)) (DeadlineIndex (ident0 4 0))
        (Height (ts0 450))) \<and>
   count_harmony_test world_live 1 = 0 \<and>
   NewIDAddress (SpID (ident0 4 0)) = Inr (IDAddress 1000) \<and>
   ChainGetTipSetAfterHeight (task0 450)
     (Challenge (NewDeadlineInfo pol0 (ProvingPeriodStart (ident0 4 0)) (DeadlineIndex (ident0 4 0))
        (Height (ts0 450))))
     (Key (ts0 450)) = Inr \<lparr> Height = 380, Key = 450 \<rparr> \<and>
   DoPartition (task0 450) \<lparr> Height = 380, Key = 450 \<rparr> (IDAddress 1000)
     (NewDeadlineInfo pol0 (ProvingPeriodStart (ident0 4 0)) (DeadlineIndex (ident0 4 0)) (Height (ts0 450)))
     (PartitionIndex (ident0 4 0)) = Inr (PoSt [1, 2, 3]) \<and>
   MarshalCBOR (task0 450) (PoSt [1, 2, 3]) = Inr [1, 2, 3] \<and>
   db_insert_proof (task0 450) (proof_record (ident0 4 0)
     (NewDeadlineInfo pol0 (ProvingPeriodStart (ident0 4 0)) (DeadlineIndex (ident0 4 0)) (Height (ts0 450)))
     [1, 2, 3]) = InsertStored \<and>
   fst (Do pol0 (task0 450) world_live 1) = (True, None) \<and>
   wdpost_proofs (snd (Do pol0 (task0 450) world_live 1)) =
     wdpost_proofs world_live @
     [proof_record (ident0 4 0)
        (NewDeadlineInfo pol0 (ProvingPeriodStart (ident0 4 0)) (DeadlineIndex (ident0 4 0)) (Height (ts0 450)))
        [1, 2, 3]] \<and>
   wdpost_proofs (snd (Do pol0 (task0 450) world_live 1)) =
     [\<lparr> pr_sp_id = 1000, pr_proving_period_start = 0, pr_deadline = 4, pr_partition = 0,
        pr_submit_at_epoch = 400, pr_submit_by_epoch = 500, pr_proof_params = [1, 2, 3] \<rparr>]"
proof -
  let ?d = "NewDeadlineInfo pol0 (ProvingPeriodStart (ident0 4 0)) (DeadlineIndex (ident0 4 0))
        (Height (ts0 450))"
  have id: "QueryRow_identity (task0 450) world_live 1 = Inr (ident0 4 0)" by code_simp
  have head: "ChainHead (task0 450) = Inr (ts0 450)" by code_simp
  have live: "\<not> PeriodElapsed ?d" by code_simp
  have nontest: "count_harmony_test world_live 1 = 0" by code_simp
  have addr: "NewIDAddress (SpID (ident0 4 0)) = Inr (IDAddress 1000)" by code_simp
  have ts: "ChainGetTipSetAfterHeight (task0 450) (Challenge ?d) (Key (ts0 450)) =
      Inr \<lparr> Height = 380, Key = 450 \<rparr>" by code_simp
  have post: "DoPartition (task0 450) \<lparr> Height = 380, Key = 450 \<rparr> (IDAddress 1000) ?d
     (PartitionIndex (ident0 4 0)) = Inr (PoSt [1, 2, 3])" by code_simp
  have cbor: "MarshalCBOR (task0 450) (PoSt [1, 2, 3]) = Inr [1, 2, 3]" by code_simp
  have stored: "db_insert_proof (task0 450) (proof_record (ident0 4 0) ?d [1, 2, 3]) = InsertStored"
    by code_simp
  from Do_live_insert [OF id head live nontest addr ts post cbor] stored
  have r: "fst (Do pol0 (task0 450) world_live 1) = (True, None)"
    and p: "wdpost_proofs (snd (Do pol0 (task0 450) world_live 1)) =
     wdpost_proofs world_live @ [proof_record (ident0 4 0) ?d [1, 2, 3]]"
    by blast+
  have row: "wdpost_proofs (snd (Do pol0 (task0 450) world_live 1)) =
     [\<lparr> pr_sp_id = 1000, pr_proving_period_start = 0, pr_deadline = 4, pr_partition = 0,
        pr_submit_at_epoch = 400, pr_submit_by_epoch = 500, pr_proof_params = [1, 2, 3] \<rparr>]"
    by code_simp
  from id head live nontest addr ts post cbor stored r p row show ?thesis by blast
qed

theorem Do_zero_rows_counterexample:
  "QueryRow_identity task_suppressed world_live 1 = Inr (ident0 4 0) \<and>
   count_harmony_test world_live 1 = 0 \<and>
   db_insert_proof task_suppressed (proof_record (ident0 4 0) (NewDeadlineInfo pol0 0 4 450) [1, 2, 3]) =
     InsertSuppressed \<and>
   fst (Do pol0 task_suppressed world_live 1) = (False, None) \<and>
   wdpost_proofs (snd (Do pol0 task_suppressed world_live 1)) = [] \<and>
   after_Do (fst (Do pol0 task_suppressed world_live 1)) 0 = offered \<and>
   after_Do (fst (Do pol0 task_suppressed world_live 1)) 0 \<noteq> deleted"
  by code_simp





section \<open>The chain-head watcher\<close>

lemma propose_new:
  "tid \<notin> task_identities w \<Longrightarrow>
   propose tid w = w\<lparr>wdpost_partition_tasks := wdpost_partition_tasks w @ [(next_task_id w, tid)],
                     next_task_id := Suc (next_task_id w)\<rparr>"
  by (simp add: propose_def AddTask_def addTaskToDB_def tx_Exec_insert_task_def
        task_identities_def Let_def)

lemma propose_duplicate:
  "tid \<in> task_identities w \<Longrightarrow> propose tid w = w"
  by (simp add: propose_def AddTask_def addTaskToDB_def tx_Exec_insert_task_def
        task_identities_def Let_def)

lemma task_identities_propose:
  "task_identities (propose tid w) = insert tid (task_identities w)"
proof (cases "tid \<in> task_identities w")
  case True
  then show ?thesis by (auto simp: propose_duplicate)
next
  case False
  then show ?thesis by (simp add: propose_new) (simp add: task_identities_def)
qed

lemma propose_partitions_effect:
  "\<exists>P e. \<forall>w. fst (propose_partitions t aid di ps w) = e \<and>
      task_identities (snd (propose_partitions t aid di ps w)) = task_identities w \<union> P"
proof (induction ps)
  case Nil
  show ?case by (intro exI [of _ "{}"] exI [of _ None]) simp
next
  case (Cons p ps)
  show ?case
  proof (cases "windowPoStTF t")
    case False
    then show ?thesis by (intro exI [of _ "{}"] exI [of _ "Some ErrNoTaskFunc"]) simp
  next
    case True
    from Cons.IH obtain P e where
      IH: "\<And>w. fst (propose_partitions t aid di ps w) = e"
          "\<And>w. task_identities (snd (propose_partitions t aid di ps w)) = task_identities w \<union> P"
      by blast
    let ?tid = "\<lparr> SpID = aid, ProvingPeriodStart = PeriodStart di, DeadlineIndex = Index di,
                  PartitionIndex = p \<rparr>"
    have step: "\<And>w. propose_partitions t aid di (p # ps) w =
        propose_partitions t aid di ps (propose ?tid w)"
      using True by (simp add: propose_def)
    show ?thesis
      by (intro exI [of _ "insert ?tid P"] exI [of _ e])
         (simp add: step IH task_identities_propose del: propose_partitions.simps)
  qed
qed

lemma processHeadChange_effect:
  "\<exists>P e. \<forall>w. fst (processHeadChange t applied actors w) = e \<and>
      task_identities (snd (processHeadChange t applied actors w)) = task_identities w \<union> P"
proof (induction actors)
  case Nil
  show ?case by (intro exI [of _ "{}"] exI [of _ None]) simp
next
  case (Cons act actors)
  from Cons.IH obtain P e where
    IH: "\<And>w. fst (processHeadChange t applied actors w) = e"
        "\<And>w. task_identities (snd (processHeadChange t applied actors w)) = task_identities w \<union> P"
    by blast
  show ?case
  proof (cases "IDFromAddress act")
    case (Inl err)
    then show ?thesis
      by (intro exI [of _ "{}"] exI [of _ "Some (Errorf ''getting miner ID'' err)"]) simp
  next
    case (Inr aid)
    note aid = this
    show ?thesis
    proof (cases "StateMinerProvingDeadline t act (Key applied)")
      case (Inl err)
      with aid show ?thesis by (intro exI [of _ "{}"] exI [of _ "Some err"]) simp
    next
      case (Inr di)
      note di = this
      show ?thesis
      proof (cases "PeriodStarted di")
        case False
        with aid di show ?thesis by (intro exI [of _ "{}"] exI [of _ None]) simp
      next
        case True
        note started = this
        show ?thesis
        proof (cases "StateMinerPartitions t act (Index di) (Key applied)")
          case (Inl err)
          with aid di started show ?thesis
            by (intro exI [of _ "{}"] exI [of _ "Some (Errorf ''getting partitions'' err)"]) simp
        next
          case (Inr partitions)
          from propose_partitions_effect [of t aid di "[0..<length partitions]"]
          obtain Q e' where
            pp: "\<And>w. fst (propose_partitions t aid di [0..<length partitions] w) = e'"
                "\<And>w. task_identities (snd (propose_partitions t aid di [0..<length partitions] w)) =
                      task_identities w \<union> Q"
            by blast
          have unfold: "processHeadChange t applied (act # actors) w =
              (case e' of
                 Some err \<Rightarrow> (Some err, snd (propose_partitions t aid di [0..<length partitions] w))
               | None \<Rightarrow> processHeadChange t applied actors
                           (snd (propose_partitions t aid di [0..<length partitions] w)))" for w
            using aid di started Inr pp(1) [of w]
            by (cases "propose_partitions t aid di [0..<length partitions] w")
               (auto split: option.splits)
          show ?thesis
          proof (cases e')
            case None
            show ?thesis
              by (intro exI [of _ "Q \<union> P"] exI [of _ e])
                 (simp add: unfold None IH pp Un_assoc del: processHeadChange.simps)
          next
            case (Some err)
            show ?thesis
              by (intro exI [of _ Q] exI [of _ "Some err"])
                 (simp add: unfold Some pp del: processHeadChange.simps)
          qed
        qed
      qed
    qed
  qed
qed

lemma propose_partitions_all:
  assumes "windowPoStTF t"
  shows "fst (propose_partitions t aid di ps w) = None \<and>
         task_identities (snd (propose_partitions t aid di ps w)) =
           task_identities w \<union>
           set (map (\<lambda>pidx. \<lparr> SpID = aid, ProvingPeriodStart = PeriodStart di,
                              DeadlineIndex = Index di, PartitionIndex = pidx \<rparr>) ps)"
proof (induction ps arbitrary: w)
  case Nil
  show ?case by simp
next
  case (Cons p ps)
  let ?tid = "\<lparr> SpID = aid, ProvingPeriodStart = PeriodStart di, DeadlineIndex = Index di,
                PartitionIndex = p \<rparr>"
  have step: "propose_partitions t aid di (p # ps) w = propose_partitions t aid di ps (propose ?tid w)"
    using assms by (simp add: propose_def)
  show ?case
    unfolding step using Cons.IH [of "propose ?tid w"]
    by (simp add: task_identities_propose)
qed

lemma watch_all_ready:
  assumes tf: "windowPoStTF t"
      and ready: "\<forall>a \<in> set actors. miner_ready t applied a"
  shows "fst (processHeadChange t applied actors w) = None \<and>
         task_identities (watch t applied actors w) =
           task_identities w \<union> (\<Union>a \<in> set actors. set (miner_identities t applied a))"
  using ready
proof (induction actors arbitrary: w)
  case Nil
  show ?case by (simp add: watch_def)
next
  case (Cons act actors)
  from Cons.prems have r: "miner_ready t applied act" by simp
  then obtain aid di partitions where
    aid: "IDFromAddress act = Inr aid" and
    di: "StateMinerProvingDeadline t act (Key applied) = Inr di" and
    started: "PeriodStarted di" and
    parts: "StateMinerPartitions t act (Index di) (Key applied) = Inr partitions"
    by (auto simp: miner_ready_def split: sum.splits)
  let ?w' = "snd (propose_partitions t aid di [0..<length partitions] w)"
  from propose_partitions_all [OF tf, of aid di "[0..<length partitions]" w]
  have pp: "fst (propose_partitions t aid di [0..<length partitions] w) = None"
    and ids: "task_identities ?w' = task_identities w \<union> set (miner_identities t applied act)"
    by (simp_all add: miner_identities_def aid di parts)
  have step: "processHeadChange t applied (act # actors) w = processHeadChange t applied actors ?w'"
    using aid di started parts pp
    by (cases "propose_partitions t aid di [0..<length partitions] w") simp
  from Cons.prems have "\<forall>a \<in> set actors. miner_ready t applied a" by simp
  from Cons.IH [OF this, of ?w'] show ?case
    unfolding watch_def step by (auto simp: ids)
qed

lemma watch_repeat:
  "task_identities ((watch t applied actors ^^ Suc n) w) = task_identities (watch t applied actors w)"
proof -
  from processHeadChange_effect [of t applied actors]
  obtain P where P: "\<And>v. task_identities (watch t applied actors v) = task_identities v \<union> P"
    unfolding watch_def by blast
  show ?thesis
  proof (induction n)
    case 0
    show ?case by simp
  next
    case (Suc n)
    have "task_identities ((watch t applied actors ^^ Suc (Suc n)) w) =
          task_identities ((watch t applied actors ^^ Suc n) w) \<union> P"
      by (simp add: P)
    also have "\<dots> = task_identities (watch t applied actors w) \<union> P"
      by (simp only: Suc.IH)
    also have "\<dots> = task_identities (watch t applied actors w)"
      by (auto simp: P)
    finally show ?case .
  qed
qed

lemma watch_any_order:
  assumes tf: "windowPoStTF t"
      and ready: "\<forall>a \<in> set actors. miner_ready t applied a"
      and perm: "\<forall>ord \<in> set orders. set ord = set actors"
  shows "task_identities (foldl (\<lambda>v ord. watch t applied ord v) (watch t applied actors w) orders) =
         task_identities (watch t applied actors w)"
  using perm
proof (induction orders rule: rev_induct)
  case Nil
  show ?case by simp
next
  case (snoc ord orders)
  from snoc.prems have eq: "set ord = set actors"
    and rest: "\<forall>ord \<in> set orders. set ord = set actors"
    by simp_all
  from ready eq have ready': "\<forall>a \<in> set ord. miner_ready t applied a" by simp
  show ?case
    using watch_all_ready [OF tf ready',
        of "foldl (\<lambda>v ord. watch t applied ord v) (watch t applied actors w) orders"]
      watch_all_ready [OF tf ready, of w] snoc.IH [OF rest]
    by (auto simp: eq)
qed


text \<open>
  Claim C1: the code does not have this property. With the two tracked miners 2000
  (period not started) and 1000 (period started and not elapsed, three partitions
  in its deadline), an invocation whose loop visits miner 2000 first returns at once
  with no error and proposes nothing for miner 1000; an invocation that visits
  miner 1000 first stores its three identities.
\<close>

theorem processHeadChange_skips_later_miners:
  "processHeadChange (task0 250) (ts0 250) [IDAddress 2000, IDAddress 1000] world0 = (None, world0) \<and>
   StateMinerProvingDeadline (task0 250) (IDAddress 2000) (Key (ts0 250)) =
     Inr (NewDeadlineInfo pol0 500 0 250) \<and>
   \<not> PeriodStarted (NewDeadlineInfo pol0 500 0 250) \<and>
   StateMinerProvingDeadline (task0 250) (IDAddress 1000) (Key (ts0 250)) =
     Inr (NewDeadlineInfo pol0 0 2 250) \<and>
   PeriodStarted (NewDeadlineInfo pol0 0 2 250) \<and>
   \<not> PeriodElapsed (NewDeadlineInfo pol0 0 2 250) \<and>
   miner_identities (task0 250) (ts0 250) (IDAddress 1000) = [ident0 2 0, ident0 2 1, ident0 2 2] \<and>
   ident0 2 0 \<notin> task_identities (watch (task0 250) (ts0 250) [IDAddress 2000, IDAddress 1000] world0) \<and>
   map snd (wdpost_partition_tasks
      (watch (task0 250) (ts0 250) [IDAddress 1000, IDAddress 2000] world0)) =
     [ident0 2 0, ident0 2 1, ident0 2 2]"
  by code_simp

text \<open>
  Claim C3, as amended. For any number of watcher invocations on the same applied
  tipset that visit the tracked miners in the same order, the set of task
  identities in the store is the set after one invocation; the same holds for
  invocations that visit the miners in any orders when the task factory is set and
  no miner ends the loop early (every chain query succeeds and every period has
  started). Proposing an identity that a row already has leaves the store as it
  was, and a proposal adds at most that identity.
\<close>

theorem enqueue_idempotent:
  "task_identities ((watch t applied actors ^^ Suc n) w) = task_identities (watch t applied actors w) \<and>
   (windowPoStTF t \<and> (\<forall>a \<in> set actors. miner_ready t applied a) \<and>
      (\<forall>ord \<in> set orders. set ord = set actors) \<longrightarrow>
    task_identities (foldl (\<lambda>v ord. watch t applied ord v) (watch t applied actors w) orders) =
      task_identities (watch t applied actors w)) \<and>
   (tid \<in> task_identities w \<longrightarrow> propose tid w = w) \<and>
   task_identities (propose tid w) = insert tid (task_identities w)"
proof (intro conjI impI)
  show "task_identities ((watch t applied actors ^^ Suc n) w) = task_identities (watch t applied actors w)"
    by (rule watch_repeat)
next
  assume "windowPoStTF t \<and> (\<forall>a \<in> set actors. miner_ready t applied a) \<and>
      (\<forall>ord \<in> set orders. set ord = set actors)"
  then show "task_identities (foldl (\<lambda>v ord. watch t applied ord v) (watch t applied actors w) orders) =
      task_identities (watch t applied actors w)"
    by (intro watch_any_order) simp_all
next
  assume "tid \<in> task_identities w"
  then show "propose tid w = w" by (rule propose_duplicate)
next
  show "task_identities (propose tid w) = insert tid (task_identities w)"
    by (rule task_identities_propose)
qed

theorem enqueue_idempotent_witness:
  "task_identities ((watch (task0 600) (ts0 600) [IDAddress 1000, IDAddress 2000] ^^ Suc 1) world_S3) =
     task_identities (watch (task0 600) (ts0 600) [IDAddress 1000, IDAddress 2000] world_S3) \<and>
   windowPoStTF (task0 600) \<and>
   miner_ready (task0 600) (ts0 600) (IDAddress 1000) \<and>
   miner_ready (task0 600) (ts0 600) (IDAddress 2000) \<and>
   set [IDAddress 2000, IDAddress 1000] = set [IDAddress 1000, IDAddress 2000] \<and>
   task_identities
     (foldl (\<lambda>v ord. watch (task0 600) (ts0 600) ord v)
        (watch (task0 600) (ts0 600) [IDAddress 1000, IDAddress 2000] world_S3)
        [[IDAddress 2000, IDAddress 1000]]) =
     task_identities (watch (task0 600) (ts0 600) [IDAddress 1000, IDAddress 2000] world_S3) \<and>
   ident0 2 0 \<in> task_identities world_S3 \<and>
   propose (ident0 2 0) world_S3 = world_S3 \<and>
   wdpost_partition_tasks (watch (task0 600) (ts0 600) [IDAddress 1000, IDAddress 2000] world_S3) =
     [(1, ident0 2 0), (2, ident0 2 1), (3, ident0 2 2)]"
proof -
  have tf: "windowPoStTF (task0 600)" by code_simp
  have r1: "miner_ready (task0 600) (ts0 600) (IDAddress 1000)" by code_simp
  have r2: "miner_ready (task0 600) (ts0 600) (IDAddress 2000)" by code_simp
  have perm: "set [IDAddress 2000, IDAddress 1000] = set [IDAddress 1000, IDAddress 2000]" by auto
  have dup: "ident0 2 0 \<in> task_identities world_S3" by code_simp
  have rows: "wdpost_partition_tasks
      (watch (task0 600) (ts0 600) [IDAddress 1000, IDAddress 2000] world_S3) =
     [(1, ident0 2 0), (2, ident0 2 1), (3, ident0 2 2)]" by code_simp
  note inst = enqueue_idempotent [where t = "task0 600" and applied = "ts0 600"
      and actors = "[IDAddress 1000, IDAddress 2000]" and n = 1 and w = world_S3
      and orders = "[[IDAddress 2000, IDAddress 1000]]" and tid = "ident0 2 0"]
  from inst have a: "task_identities
      ((watch (task0 600) (ts0 600) [IDAddress 1000, IDAddress 2000] ^^ Suc 1) world_S3) =
     task_identities (watch (task0 600) (ts0 600) [IDAddress 1000, IDAddress 2000] world_S3)"
    by blast
  from r1 r2 have ready: "\<forall>a \<in> set [IDAddress 1000, IDAddress 2000]. miner_ready (task0 600) (ts0 600) a"
    by simp
  from perm have perm': "\<forall>ord \<in> set [[IDAddress 2000, IDAddress 1000]].
      set ord = set [IDAddress 1000, IDAddress 2000]" by simp
  from inst tf ready perm' have b: "task_identities
     (foldl (\<lambda>v ord. watch (task0 600) (ts0 600) ord v)
        (watch (task0 600) (ts0 600) [IDAddress 1000, IDAddress 2000] world_S3)
        [[IDAddress 2000, IDAddress 1000]]) =
     task_identities (watch (task0 600) (ts0 600) [IDAddress 1000, IDAddress 2000] world_S3)"
    by blast
  from inst dup have c: "propose (ident0 2 0) world_S3 = world_S3" by blast
  from a tf r1 r2 perm b dup c rows show ?thesis by blast
qed

theorem enqueue_order_counterexample:
  "StateMinerProvingDeadline (task0 250) (IDAddress 3000) (Key (ts0 250)) = Inl ErrChain \<and>
   processHeadChange (task0 250) (ts0 250) [IDAddress 3000, IDAddress 1000] world0 =
     (Some ErrChain, world0) \<and>
   map snd (wdpost_partition_tasks
      (watch (task0 250) (ts0 250) [IDAddress 1000, IDAddress 3000]
         (watch (task0 250) (ts0 250) [IDAddress 3000, IDAddress 1000] world0))) =
     [ident0 2 0, ident0 2 1, ident0 2 2] \<and>
   task_identities
      (watch (task0 250) (ts0 250) [IDAddress 1000, IDAddress 3000]
         (watch (task0 250) (ts0 250) [IDAddress 3000, IDAddress 1000] world0)) \<noteq>
     task_identities (watch (task0 250) (ts0 250) [IDAddress 3000, IDAddress 1000] world0)"
  by code_simp

end
